theory Spec2Isabelle
  imports Complex_Main "HOL-Library.Word" "HOL-Library.AList" "HOL-Library.Sublist"
begin

section \<open>Numbers, values and errors of the source language\<close>

text \<open>
  The experimentation and rollout control plane is written in TypeScript
  (\<^verbatim>\<open>ABTestManager\<close> and \<^verbatim>\<open>RolloutManager\<close>). Its numbers are IEEE doubles. They
  are modelled as a real number or one of the three special values, so that every
  division by zero and every comparison with \<^verbatim>\<open>NaN\<close> of the source is a branch of the
  model. The sign of zero is not modelled: a finite non-zero value divided by zero is an
  infinity of the sign of the numerator. Rounding is modelled where the outcome of an
  operation turns on it, which is the check of the variant weights of an experiment
  against 100 within 0.01: the weights are added and compared in double arithmetic
  (\<open>dadd\<close>, \<open>dsub\<close> and \<open>fl\<close> below). The other computations are exact on finite
  values.
\<close>

datatype jsnum = Fin real | PInf | NInf | NaN

fun jneg :: "jsnum \<Rightarrow> jsnum" where
  "jneg (Fin a) = Fin (- a)"
| "jneg PInf = NInf"
| "jneg NInf = PInf"
| "jneg NaN = NaN"

fun jadd :: "jsnum \<Rightarrow> jsnum \<Rightarrow> jsnum" where
  "jadd NaN _ = NaN"
| "jadd _ NaN = NaN"
| "jadd (Fin a) (Fin b) = Fin (a + b)"
| "jadd PInf NInf = NaN"
| "jadd NInf PInf = NaN"
| "jadd PInf _ = PInf"
| "jadd NInf _ = NInf"
| "jadd (Fin a) b = b"

definition jsub :: "jsnum \<Rightarrow> jsnum \<Rightarrow> jsnum" where
  "jsub a b = jadd a (jneg b)"

text \<open>The sign of a value that is not \<^verbatim>\<open>NaN\<close>: \<open>-1\<close>, \<open>0\<close> or \<open>1\<close>.\<close>

fun jsgn :: "jsnum \<Rightarrow> int" where
  "jsgn (Fin a) = (if a < 0 then - 1 else if a = 0 then 0 else 1)"
| "jsgn PInf = 1"
| "jsgn NInf = - 1"
| "jsgn NaN = 0"

definition inf_of_sign :: "int \<Rightarrow> jsnum" where
  "inf_of_sign s = (if s = 0 then NaN else if 0 < s then PInf else NInf)"

fun jmul :: "jsnum \<Rightarrow> jsnum \<Rightarrow> jsnum" where
  "jmul NaN _ = NaN"
| "jmul _ NaN = NaN"
| "jmul (Fin a) (Fin b) = Fin (a * b)"
| "jmul a b = inf_of_sign (jsgn a * jsgn b)"

fun jdiv :: "jsnum \<Rightarrow> jsnum \<Rightarrow> jsnum" where
  "jdiv NaN _ = NaN"
| "jdiv _ NaN = NaN"
| "jdiv (Fin a) (Fin b) = (if b = 0 then inf_of_sign (jsgn (Fin a)) else Fin (a / b))"
| "jdiv (Fin a) _ = Fin 0"
| "jdiv a (Fin b) = inf_of_sign (jsgn a * (if b < 0 then - 1 else 1))"
| "jdiv _ _ = NaN"

fun jabs :: "jsnum \<Rightarrow> jsnum" where
  "jabs (Fin a) = Fin \<bar>a\<bar>"
| "jabs NaN = NaN"
| "jabs _ = PInf"

fun jsqrt :: "jsnum \<Rightarrow> jsnum" where
  "jsqrt (Fin a) = (if a < 0 then NaN else Fin (sqrt a))"
| "jsqrt PInf = PInf"
| "jsqrt _ = NaN"

fun jexp :: "jsnum \<Rightarrow> jsnum" where
  "jexp (Fin a) = Fin (exp a)"
| "jexp PInf = PInf"
| "jexp NInf = Fin 0"
| "jexp NaN = NaN"

fun jfloor :: "jsnum \<Rightarrow> jsnum" where
  "jfloor (Fin a) = Fin (of_int \<lfloor>a\<rfloor>)"
| "jfloor a = a"

text \<open>Comparisons: every comparison with \<^verbatim>\<open>NaN\<close> is false.\<close>

fun jlt :: "jsnum \<Rightarrow> jsnum \<Rightarrow> bool" where
  "jlt NaN _ = False"
| "jlt _ NaN = False"
| "jlt (Fin a) (Fin b) = (a < b)"
| "jlt _ NInf = False"
| "jlt PInf _ = False"
| "jlt _ _ = True"

definition jgt :: "jsnum \<Rightarrow> jsnum \<Rightarrow> bool" where
  "jgt a b = jlt b a"

fun jle :: "jsnum \<Rightarrow> jsnum \<Rightarrow> bool" where
  "jle NaN _ = False"
| "jle _ NaN = False"
| "jle a b = (\<not> jlt b a)"

definition jge :: "jsnum \<Rightarrow> jsnum \<Rightarrow> bool" where
  "jge a b = jle b a"

text \<open>\<^verbatim>\<open>Math.min\<close> of two numbers.\<close>

definition jmin :: "jsnum \<Rightarrow> jsnum \<Rightarrow> jsnum" where
  "jmin a b = (if a = NaN \<or> b = NaN then NaN else if jlt b a then b else a)"

text \<open>Truthiness of a number, as in \<^verbatim>\<open>x || 1\<close> and \<^verbatim>\<open>x && y\<close>.\<close>

fun truthy :: "jsnum \<Rightarrow> bool" where
  "truthy (Fin a) = (a \<noteq> 0)"
| "truthy NaN = False"
| "truthy _ = True"

subsection \<open>Double arithmetic\<close>

text \<open>
  \<open>fl\<close> rounds a real number to the nearest double, ties to the even mantissa: the unit
  in the last place of a number with binary exponent \<open>e\<close> is \<open>2\<close> to the \<open>e - 52\<close>, no
  exponent is below \<open>-1022\<close>, and a result of magnitude \<open>2\<close> to the \<open>1024\<close> or more is an
  infinity. \<open>dadd\<close> and \<open>dsub\<close> are \<^verbatim>\<open>+\<close> and \<^verbatim>\<open>-\<close> on doubles: the exact result,
  rounded. A decimal literal of the source is the double nearest to it, so \<^verbatim>\<open>0.01\<close> is
  \<open>fl (1 / 100)\<close>.
\<close>

definition roundHalfEven :: "real \<Rightarrow> int" where
  "roundHalfEven q =
     (let f = \<lfloor>q\<rfloor>; d = q - of_int f in
      if d < 1 / 2 then f else if 1 / 2 < d then f + 1 else if even f then f else f + 1)"

definition pow2 :: "int \<Rightarrow> real" where
  "pow2 e = (if 0 \<le> e then 2 ^ nat e else 1 / 2 ^ nat (- e))"

definition fl :: "real \<Rightarrow> jsnum" where
  "fl x =
     (if x = 0 then Fin 0
      else
        (let e = max \<lfloor>log 2 \<bar>x\<bar>\<rfloor> (- 1022);
             ulp = pow2 (e - 52);
             y = of_int (roundHalfEven (x / ulp)) * ulp
         in if 2 ^ 1024 \<le> \<bar>y\<bar> then (if 0 < x then PInf else NInf) else Fin y))"

definition dadd :: "jsnum \<Rightarrow> jsnum \<Rightarrow> jsnum" where
  "dadd a b = (case jadd a b of Fin x \<Rightarrow> fl x | r \<Rightarrow> r)"

definition dsub :: "jsnum \<Rightarrow> jsnum \<Rightarrow> jsnum" where
  "dsub a b = dadd a (jneg b)"

subsection \<open>Errors, strings and the environment\<close>

text \<open>
  Errors are values. The source raises \<^verbatim>\<open>Error('Variant weights must sum to 100')\<close>
  (the only configuration error it has), \<^verbatim>\<open>Error('Test ... not found')\<close> and
  \<^verbatim>\<open>Error('Rollout ... not found')\<close>; reading a property of \<^verbatim>\<open>undefined\<close> and
  serialising a cyclic object raise a \<^verbatim>\<open>TypeError\<close>. An operation that mutates the
  manager before it raises keeps the mutation, so every operation returns its outcome
  together with the state it leaves.
\<close>

datatype error = WeightsError | TestNotFound string | RolloutNotFound string | TypeError

text \<open>
  Identifiers and names are strings of 8-bit characters, \<^verbatim>\<open>charCodeAt\<close> is
  \<^const>\<open>of_char\<close>. A date is the number \<^verbatim>\<open>new Date(s).getTime()\<close> reads from its
  ISO string (milliseconds; \<^const>\<open>NaN\<close> for a string that is no date). The clock
  (\<^verbatim>\<open>Date.now()\<close>, read once for an operation), the draws of \<^verbatim>\<open>Math.random()\<close> and
  the identifier that \<^verbatim>\<open>generateId\<close> makes are parameters of the operations that use
  them. The \<^verbatim>\<open>await\<close>s of an operation run in sequence, so an asynchronous operation
  is a function from state to outcome and state.

  The store behind \<^verbatim>\<open>localStorage\<close>, console output and notifications are outside the
  model; what a manager loads from the store when it is constructed is any state of its
  type. Timers are outside the model too: the callbacks they would run
  (\<^verbatim>\<open>checkSafeguards\<close>, \<^verbatim>\<open>evaluatePhaseTransition\<close>, \<^verbatim>\<open>checkActiveRollouts\<close>) are
  operations that may run at any time, with any argument.
\<close>

section \<open>The A/B test manager\<close>

subsection \<open>Data\<close>

datatype test_status = Draft | Active | Paused | Completed

record ABVariant =
  v_id :: string
  v_name :: string
  v_weight :: jsnum
  v_isControl :: bool

datatype user_type = New | Returning | Beta | All
datatype experience = Beginner | Intermediate | Advanced
datatype platform = Mobile | Desktop | Tablet

record AudienceCriteria =
  userType :: "user_type option"
  experience :: "experience option"
  platform :: "platform option"

record TargetAudience =
  criteria :: AudienceCriteria
  ta_percentage :: jsnum
  exclusions :: "string list option"

datatype allocation_type = Random | Deterministic | Gradual

record GradualRollout =
  initialPercentage :: jsnum
  incrementPercentage :: jsnum
  incrementInterval :: jsnum
  maxPercentage :: jsnum

record AllocationStrategy =
  a_type :: allocation_type
  seed :: "string option"
  gradualRollout :: "GradualRollout option"

record TestSafeguards =
  sg_maxErrorRate :: jsnum
  sg_maxLatencyIncrease :: jsnum
  sg_minSuccessRate :: jsnum
  monitoringInterval :: jsnum

datatype comparator = Gt | Lt | Eq

record RollbackTrigger =
  rt_metric :: string
  rt_condition :: comparator
  rt_threshold :: jsnum
  rt_duration :: jsnum

record VariantMetrics =
  conversionRate :: jsnum
  averageValue :: jsnum
  standardError :: jsnum
  confidenceInterval :: "jsnum \<times> jsnum"

datatype test_method = Welch | Pooled | Bayesian

record SignificanceTest =
  pValue :: jsnum
  zScore :: jsnum
  significant :: bool
  s_method :: test_method

datatype recommendation = Continue | Rollback | Winner | Inconclusive

text \<open>
  The two result tables are objects keyed by variant id; they are only written and read
  by key, so they are maps. The fields \<^verbatim>\<open>winningVariant\<close> and \<^verbatim>\<open>customMetrics\<close> of the
  results, the configuration payload of a variant and the descriptions are read by no
  operation modelled here and are left out. The metadata of an event, which the manager
  only stores, is a list of pairs of strings.
\<close>

record ABTestResults =
  sampleSizes :: "string \<rightharpoonup> nat"
  metrics :: "string \<rightharpoonup> VariantMetrics"
  significance :: SignificanceTest
  recommendation :: recommendation
  confidence :: jsnum

record ABTest =
  t_id :: string
  t_name :: string
  t_status :: test_status
  variants :: "ABVariant list"
  targetAudience :: TargetAudience
  allocation :: AllocationStrategy
  t_startDate :: jsnum
  endDate :: "jsnum option"
  createdDate :: jsnum
  primaryMetric :: string
  secondaryMetrics :: "string list"
  minimumSampleSize :: jsnum
  confidenceLevel :: jsnum
  results :: "ABTestResults option"
  safeguards :: TestSafeguards
  rollbackTriggers :: "RollbackTrigger list"

record UserAssignment =
  ua_userId :: string
  ua_testId :: string
  ua_variantId :: string
  assignedAt :: jsnum
  isActive :: bool

record ABTestEvent =
  e_userId :: string
  e_testId :: string
  e_variantId :: string
  eventType :: string
  eventValue :: "jsnum option"
  metadata :: "(string \<times> string) list option"
  e_timestamp :: jsnum

record ABTestManager =
  activeTests :: "string \<rightharpoonup> ABTest"
  userAssignments :: "string \<rightharpoonup> UserAssignment list"
  testEvents :: "ABTestEvent list"
  userId :: string

text \<open>The draws of \<^verbatim>\<open>Math.random()\<close> one call of \<^verbatim>\<open>getAssignment\<close> can make, by site.\<close>

record draws =
  d_eligible :: real
  d_gradual :: real
  d_random :: real

subsection \<open>Assignment\<close>

definition getUserAssignment :: "ABTestManager \<Rightarrow> string \<Rightarrow> UserAssignment option" where
  "getUserAssignment m testId =
     find (\<lambda>a. ua_testId a = testId \<and> isActive a)
       (case userAssignments m (userId m) of None \<Rightarrow> [] | Some as \<Rightarrow> as)"

definition recordAssignment :: "jsnum \<Rightarrow> string \<Rightarrow> string \<Rightarrow> ABTestManager \<Rightarrow> ABTestManager" where
  "recordAssignment now testId variantId m =
     (let assignment = \<lparr>ua_userId = userId m, ua_testId = testId, ua_variantId = variantId,
                         assignedAt = now, isActive = True\<rparr>;
          old = (case userAssignments m (userId m) of None \<Rightarrow> [] | Some as \<Rightarrow> as)
      in m\<lparr>userAssignments := (userAssignments m)(userId m \<mapsto> old @ [assignment])\<rparr>)"

text \<open>
  \<^verbatim>\<open>getUserData\<close> returns a constant: a beta user of intermediate experience on the
  desktop, with no attributes. An exclusion excludes a user whose attribute of that name
  is \<^verbatim>\<open>true\<close>.
\<close>

definition userData_type :: user_type where "userData_type = Beta"
definition userData_experience :: experience where "userData_experience = Intermediate"
definition userData_platform :: platform where "userData_platform = Desktop"
definition userData_attributes :: "string \<rightharpoonup> bool" where "userData_attributes = Map.empty"

definition isUserEligible :: "real \<Rightarrow> ABTest \<Rightarrow> bool" where
  "isUserEligible r test =
     (let ta = targetAudience test; c = criteria ta in
      if jgt (jmul (Fin r) (Fin 100)) (ta_percentage ta) then False
      else if (case userType c of None \<Rightarrow> False | Some u \<Rightarrow> u \<noteq> userData_type) then False
      else if (case experience c of None \<Rightarrow> False | Some e \<Rightarrow> e \<noteq> userData_experience) then False
      else if (case platform c of None \<Rightarrow> False | Some p \<Rightarrow> p \<noteq> userData_platform) then False
      else if (case exclusions ta of None \<Rightarrow> False
               | Some xs \<Rightarrow> list_ex (\<lambda>x. userData_attributes x = Some True) xs) then False
      else True)"

text \<open>
  The walk of the cumulative weight table, shared by the random and the deterministic
  strategy: the first variant whose cumulative weight reaches the given percentage.
\<close>

fun walkVariants :: "jsnum \<Rightarrow> jsnum \<Rightarrow> ABVariant list \<Rightarrow> string option" where
  "walkVariants x cumulative [] = None"
| "walkVariants x cumulative (v # vs) =
     (let c = jadd cumulative (v_weight v) in
      if jle x c then Some (v_id v) else walkVariants x c vs)"

text \<open>\<^verbatim>\<open>variants[0].id\<close>, which raises on an empty list.\<close>

definition firstVariantId :: "ABVariant list \<Rightarrow> error + string" where
  "firstVariantId vs = (case vs of [] \<Rightarrow> Inl TypeError | v # _ \<Rightarrow> Inr (v_id v))"

definition randomAssignment :: "real \<Rightarrow> ABVariant list \<Rightarrow> error + string" where
  "randomAssignment r vs =
     (case walkVariants (jmul (Fin r) (Fin 100)) (Fin 0) vs of
        Some i \<Rightarrow> Inr i
      | None \<Rightarrow> firstVariantId vs)"

text \<open>
  The rolling hash: \<^verbatim>\<open>hash = ((hash << 5) - hash) + char; hash = hash & hash\<close> keeps a
  signed 32-bit integer, and \<^verbatim>\<open>Math.abs\<close> is taken of the signed reading at the end.
\<close>

definition simpleHash :: "string \<Rightarrow> int" where
  "simpleHash str =
     \<bar>sint (foldl (\<lambda>hash c. (push_bit 5 hash - hash) + of_nat (of_char c)) (0 :: 32 word) str)\<bar>"

definition hashPercentage :: "string \<Rightarrow> jsnum" where
  "hashPercentage str = Fin (real_of_int (simpleHash str mod 10000) / 100)"

definition deterministicAssignment :: "string \<Rightarrow> ABVariant list \<Rightarrow> string option \<Rightarrow> error + string" where
  "deterministicAssignment uid vs sd =
     (let hashInput = uid @ (case sd of None \<Rightarrow> [] | Some s \<Rightarrow> s) in
      case walkVariants (hashPercentage hashInput) (Fin 0) vs of
        Some i \<Rightarrow> Inr i
      | None \<Rightarrow> firstVariantId vs)"

definition gradualAssignment :: "jsnum \<Rightarrow> draws \<Rightarrow> ABTest \<Rightarrow> error + string" where
  "gradualAssignment now d test =
     (case gradualRollout (allocation test) of
        None \<Rightarrow> randomAssignment (d_random d) (variants test)
      | Some g \<Rightarrow>
          (let hoursElapsed = jdiv (jsub now (t_startDate test)) (Fin (1000 * 60 * 60));
               increments = jfloor (jdiv hoursElapsed (incrementInterval g));
               currentPercentage =
                 jmin (jadd (initialPercentage g) (jmul increments (incrementPercentage g)))
                      (maxPercentage g)
           in if jgt (jmul (Fin (d_gradual d)) (Fin 100)) currentPercentage
              then (case find v_isControl (variants test) of
                      Some c \<Rightarrow> if v_id c \<noteq> [] then Inr (v_id c) else firstVariantId (variants test)
                    | None \<Rightarrow> firstVariantId (variants test))
              else randomAssignment (d_random d) (variants test)))"

definition assignUserToVariant :: "string \<Rightarrow> jsnum \<Rightarrow> draws \<Rightarrow> ABTest \<Rightarrow> error + string" where
  "assignUserToVariant uid now d test =
     (case a_type (allocation test) of
        Random \<Rightarrow> randomAssignment (d_random d) (variants test)
      | Deterministic \<Rightarrow> deterministicAssignment uid (variants test) (seed (allocation test))
      | Gradual \<Rightarrow> gradualAssignment now d test)"

definition getAssignment ::
  "jsnum \<Rightarrow> draws \<Rightarrow> string \<Rightarrow> ABTestManager \<Rightarrow> (error + string option) \<times> ABTestManager" where
  "getAssignment now d testId m =
     (case activeTests m testId of
        None \<Rightarrow> (Inr None, m)
      | Some test \<Rightarrow>
          if t_status test \<noteq> Active then (Inr None, m)
          else (case getUserAssignment m testId of
                  Some existing \<Rightarrow> (Inr (Some (ua_variantId existing)), m)
                | None \<Rightarrow>
                    if \<not> isUserEligible (d_eligible d) test then (Inr None, m)
                    else (case assignUserToVariant (userId m) now d test of
                            Inl e \<Rightarrow> (Inl e, m)
                          | Inr variantId \<Rightarrow>
                              (Inr (Some variantId), recordAssignment now testId variantId m))))"

subsection \<open>Event tracking\<close>

definition trackEvent ::
  "jsnum \<Rightarrow> string \<Rightarrow> string \<Rightarrow> jsnum option \<Rightarrow> (string \<times> string) list option
     \<Rightarrow> ABTestManager \<Rightarrow> ABTestManager" where
  "trackEvent now testId evType evValue meta m =
     (case getUserAssignment m testId of
        None \<Rightarrow> m
      | Some assignment \<Rightarrow>
          m\<lparr>testEvents := testEvents m @
              [\<lparr>e_userId = userId m, e_testId = testId, e_variantId = ua_variantId assignment,
                eventType = evType, eventValue = evValue, metadata = meta,
                e_timestamp = now\<rparr>]\<rparr>)"

subsection \<open>Results\<close>

definition jpow2 :: "jsnum \<Rightarrow> jsnum" where
  "jpow2 x = jmul x x"

text \<open>
  The number of events of the variant's users is counted on distinct user ids; a missing,
  zero or \<^verbatim>\<open>NaN\<close> event value counts as 1. With no conversion event the standard error
  is the square root of \<^verbatim>\<open>0 / 0\<close>.
\<close>

definition calculateVariantMetrics :: "ABTestEvent list \<Rightarrow> string \<Rightarrow> VariantMetrics" where
  "calculateVariantMetrics events pm =
     (let conversionEvents = filter (\<lambda>e. eventType e = pm) events;
          totalUsers = length (remdups (map e_userId events));
          rate = (if totalUsers > 0
                  then jdiv (Fin (real (length conversionEvents))) (Fin (real totalUsers))
                  else Fin 0);
          vals = map (\<lambda>e. case eventValue e of None \<Rightarrow> Fin 1
                            | Some v \<Rightarrow> if truthy v then v else Fin 1) conversionEvents;
          n = Fin (real (length vals));
          avg = (case vals of [] \<Rightarrow> Fin 0 | v # vs \<Rightarrow> jdiv (foldl jadd v vs) n);
          variance = (if length vals > 1
                      then jdiv (foldl (\<lambda>sum val. jadd sum (jpow2 (jsub val avg))) (Fin 0) vals)
                                (Fin (real (length vals - 1)))
                      else Fin 0);
          se = jsqrt (jdiv variance n);
          marginOfError = jmul (Fin 1.96) se
      in \<lparr>conversionRate = rate, averageValue = avg, standardError = se,
          confidenceInterval = (jsub avg marginOfError, jadd avg marginOfError)\<rparr>)"

definition erf :: "jsnum \<Rightarrow> jsnum" where
  "erf x0 =
     (let a1 = Fin 0.254829592; a2 = Fin (- 0.284496736); a3 = Fin 1.421413741;
          a4 = Fin (- 1.453152027); a5 = Fin 1.061405429; p = Fin 0.3275911;
          sign = (if jge x0 (Fin 0) then Fin 1 else Fin (- 1));
          x = jabs x0;
          t = jdiv (Fin 1) (jadd (Fin 1) (jmul p x));
          y = jsub (Fin 1)
                (jmul
                  (jmul
                    (jadd (jmul (jadd (jmul (jadd (jmul (jadd (jmul a5 t) a4) t) a3) t) a2) t) a1)
                    t)
                  (jexp (jmul (jneg x) x)))
      in jmul sign y)"

definition normalCDF :: "jsnum \<Rightarrow> jsnum" where
  "normalCDF x = jmul (Fin 0.5) (jadd (Fin 1) (erf (jdiv x (Fin (sqrt 2)))))"

definition calculatePValue :: "jsnum \<Rightarrow> jsnum" where
  "calculatePValue z = jmul (Fin 2) (jsub (Fin 1) (normalCDF (jabs z)))"

definition neutralSignificance :: SignificanceTest where
  "neutralSignificance = \<lparr>pValue = Fin 1, zScore = Fin 0, significant = False, s_method = Welch\<rparr>"

text \<open>
  The control is the first variant marked as control, the treatment the first variant
  that is not. Reading the metrics of a variant id that has no entry raises.
\<close>

definition performSignificanceTest ::
  "(string \<rightharpoonup> VariantMetrics) \<Rightarrow> ABVariant list \<Rightarrow> error + SignificanceTest" where
  "performSignificanceTest ms vs =
     (case find v_isControl vs of
        None \<Rightarrow> Inr neutralSignificance
      | Some controlVariant \<Rightarrow>
          (case find (\<lambda>v. \<not> v_isControl v) vs of
             None \<Rightarrow> Inr neutralSignificance
           | Some testVariant \<Rightarrow>
               (case ms (v_id controlVariant) of
                  None \<Rightarrow> Inl TypeError
                | Some control \<Rightarrow>
                    (case ms (v_id testVariant) of
                       None \<Rightarrow> Inl TypeError
                     | Some test \<Rightarrow>
                         (let pooledSE = jsqrt (jadd (jpow2 (standardError control))
                                                     (jpow2 (standardError test)));
                              z = (if jgt pooledSE (Fin 0)
                                   then jdiv (jsub (averageValue test) (averageValue control)) pooledSE
                                   else Fin 0);
                              p = calculatePValue (jabs z)
                          in Inr \<lparr>pValue = p, zScore = z, significant = jlt p (Fin 0.05),
                                   s_method = Welch\<rparr>)))))"

definition generateRecommendation ::
  "SignificanceTest \<Rightarrow> (string \<rightharpoonup> VariantMetrics) \<Rightarrow> ABTest \<Rightarrow> error + recommendation" where
  "generateRecommendation sig ms test =
     (if \<not> significant sig then Inr Inconclusive
      else (case find v_isControl (variants test) of
              None \<Rightarrow> Inr Inconclusive
            | Some controlVariant \<Rightarrow>
                (case find (\<lambda>v. \<not> v_isControl v) (variants test) of
                   None \<Rightarrow> Inr Inconclusive
                 | Some testVariant \<Rightarrow>
                     (case ms (v_id controlVariant) of
                        None \<Rightarrow> Inl TypeError
                      | Some controlMetrics \<Rightarrow>
                          (case ms (v_id testVariant) of
                             None \<Rightarrow> Inl TypeError
                           | Some testMetrics \<Rightarrow>
                               if jgt (averageValue testMetrics) (averageValue controlMetrics)
                               then Inr Winner else Inr Rollback)))))"

text \<open>The loop over the variants that fills the two tables of the results.\<close>

fun variantTables ::
  "ABTestEvent list \<Rightarrow> string \<Rightarrow> ABVariant list
     \<Rightarrow> (string \<rightharpoonup> nat) \<times> (string \<rightharpoonup> VariantMetrics)
     \<Rightarrow> (string \<rightharpoonup> nat) \<times> (string \<rightharpoonup> VariantMetrics)" where
  "variantTables events pm [] tabs = tabs"
| "variantTables events pm (v # vs) (sizes, ms) =
     (let variantEvents = filter (\<lambda>e. e_variantId e = v_id v) events;
          uniqueUsers = length (remdups (map e_userId variantEvents))
      in variantTables events pm vs
           (sizes(v_id v \<mapsto> uniqueUsers),
            ms(v_id v \<mapsto> calculateVariantMetrics variantEvents pm)))"

definition calculateResults :: "ABTestManager \<Rightarrow> string \<Rightarrow> error + ABTestResults" where
  "calculateResults m testId =
     (case activeTests m testId of
        None \<Rightarrow> Inl (TestNotFound testId)
      | Some test \<Rightarrow>
          (let events = filter (\<lambda>e. e_testId e = testId) (testEvents m);
               (sizes, ms) = variantTables events (primaryMetric test) (variants test)
                               (Map.empty, Map.empty)
           in case performSignificanceTest ms (variants test) of
                Inl e \<Rightarrow> Inl e
              | Inr sig \<Rightarrow>
                  (case generateRecommendation sig ms test of
                     Inl e \<Rightarrow> Inl e
                   | Inr rec \<Rightarrow>
                       Inr \<lparr>sampleSizes = sizes, metrics = ms, significance = sig,
                            recommendation = rec, confidence = confidenceLevel test\<rparr>)))"

subsection \<open>Test management\<close>

text \<open>
  The weights are summed from 0 in list order, and the distance of the sum from 100 is
  compared with 0.01, all in double arithmetic. A sum that is \<^verbatim>\<open>NaN\<close> passes the check.
\<close>

definition validateTestConfig :: "ABTest \<Rightarrow> error + unit" where
  "validateTestConfig test =
     (let totalWeight = foldl (\<lambda>sum v. dadd sum (v_weight v)) (Fin 0) (variants test) in
      if jgt (jabs (dsub totalWeight (Fin 100))) (fl (1 / 100)) then Inl WeightsError else Inr ())"

text \<open>
  \<^verbatim>\<open>createTest\<close> takes the configuration as a test whose id, status and creation date it
  sets itself; \<open>newId\<close> is the identifier \<^verbatim>\<open>generateId\<close> makes.
\<close>

definition createTest ::
  "string \<Rightarrow> jsnum \<Rightarrow> ABTest \<Rightarrow> ABTestManager \<Rightarrow> (error + string) \<times> ABTestManager" where
  "createTest newId now testConfig m =
     (let test = testConfig\<lparr>t_id := newId, t_status := Draft, createdDate := now\<rparr> in
      case validateTestConfig test of
        Inl e \<Rightarrow> (Inl e, m)
      | Inr _ \<Rightarrow> (Inr newId, m\<lparr>activeTests := (activeTests m)(newId \<mapsto> test)\<rparr>))"

definition startTest :: "jsnum \<Rightarrow> string \<Rightarrow> ABTestManager \<Rightarrow> (error + unit) \<times> ABTestManager" where
  "startTest now testId m =
     (case activeTests m testId of
        None \<Rightarrow> (Inl (TestNotFound testId), m)
      | Some test \<Rightarrow>
          (Inr (), m\<lparr>activeTests :=
                      (activeTests m)(testId \<mapsto> test\<lparr>t_status := Active, t_startDate := now\<rparr>)\<rparr>))"

definition stopTest ::
  "jsnum \<Rightarrow> string \<Rightarrow> string \<Rightarrow> ABTestManager \<Rightarrow> (error + unit) \<times> ABTestManager" where
  "stopTest now testId reason m =
     (case activeTests m testId of
        None \<Rightarrow> (Inl (TestNotFound testId), m)
      | Some test \<Rightarrow>
          (let test1 = test\<lparr>t_status := Completed, endDate := Some now\<rparr>;
               m1 = m\<lparr>activeTests := (activeTests m)(testId \<mapsto> test1)\<rparr>
           in case calculateResults m1 testId of
                Inl e \<Rightarrow> (Inl e, m1)
              | Inr r \<Rightarrow>
                  (Inr (), m1\<lparr>activeTests :=
                               (activeTests m1)(testId \<mapsto> test1\<lparr>results := Some r\<rparr>)\<rparr>)))"

subsection \<open>Safeguards of a running test\<close>

text \<open>The test manager's own metrics source is a stub of four random draws.\<close>

record test_metric_draws =
  td_errorRate :: real
  td_latency :: real
  td_successRate :: real
  td_customMetric :: real

definition test_getCurrentMetrics :: "test_metric_draws \<Rightarrow> (string \<rightharpoonup> jsnum)" where
  "test_getCurrentMetrics d =
     map_of [(''errorRate'', jmul (Fin (td_errorRate d)) (Fin 0.01)),
             (''latency'', jmul (Fin (td_latency d)) (Fin 100)),
             (''successRate'', jadd (Fin 0.95) (jmul (Fin (td_successRate d)) (Fin 0.05))),
             (''customMetric'', jmul (Fin (td_customMetric d)) (Fin 100))]"

text \<open>A comparison with the value of a metric that is not there is false.\<close>

definition compareMetric :: "comparator \<Rightarrow> jsnum option \<Rightarrow> jsnum \<Rightarrow> bool" where
  "compareMetric c v threshold =
     (case v of
        None \<Rightarrow> False
      | Some x \<Rightarrow>
          (case c of
             Gt \<Rightarrow> jgt x threshold
           | Lt \<Rightarrow> jlt x threshold
           | Eq \<Rightarrow> jlt (jabs (jsub x threshold)) (Fin 0.001)))"

definition evaluateTriggerCondition :: "jsnum option \<Rightarrow> RollbackTrigger \<Rightarrow> bool" where
  "evaluateTriggerCondition v trigger = compareMetric (rt_condition trigger) v (rt_threshold trigger)"

text \<open>Rolling a test back pauses it; reassigning its users is a log line in the source.\<close>

definition triggerRollback :: "string \<Rightarrow> string \<Rightarrow> ABTestManager \<Rightarrow> ABTestManager" where
  "triggerRollback testId reason m =
     (case activeTests m testId of
        None \<Rightarrow> m
      | Some test \<Rightarrow> m\<lparr>activeTests := (activeTests m)(testId \<mapsto> test\<lparr>t_status := Paused\<rparr>)\<rparr>)"

definition checkSafeguards :: "test_metric_draws \<Rightarrow> string \<Rightarrow> ABTestManager \<Rightarrow> ABTestManager" where
  "checkSafeguards d testId m =
     (case activeTests m testId of
        None \<Rightarrow> m
      | Some test \<Rightarrow>
          (let currentMetrics = test_getCurrentMetrics d; sg = safeguards test in
           if compareMetric Gt (currentMetrics ''errorRate'') (sg_maxErrorRate sg)
           then triggerRollback testId ''High error rate detected'' m
           else if compareMetric Gt (currentMetrics ''latency'') (sg_maxLatencyIncrease sg)
           then triggerRollback testId ''High latency detected'' m
           else if compareMetric Lt (currentMetrics ''successRate'') (sg_minSuccessRate sg)
           then triggerRollback testId ''Low success rate detected'' m
           else (case find (\<lambda>trigger. evaluateTriggerCondition (currentMetrics (rt_metric trigger)) trigger)
                        (rollbackTriggers test) of
                   Some trigger \<Rightarrow>
                     triggerRollback testId (''Trigger condition met for '' @ rt_metric trigger) m
                 | None \<Rightarrow> m)))"

section \<open>The rollout manager\<close>

subsection \<open>Data\<close>

datatype rollout_status = Planned | RActive | RPaused | RCompleted | RolledBack

datatype strategy_type = Canary | BlueGreen | GradualStrategy | FeatureFlagStrategy
datatype strategy_audience = ForBeta | ForStaff | ForPercentage | ForAll
datatype rollback_strategy = Immediate | GradualRollback | Manual

record RolloutStrategy =
  s_type :: strategy_type
  s_targetAudience :: strategy_audience
  rollbackStrategy :: rollback_strategy

record PhaseCriteria =
  minSuccessRate :: jsnum
  maxErrorRate :: jsnum
  maxLatencyIncrease :: jsnum
  minUserSatisfaction :: "jsnum option"
  customMetrics :: "(string \<times> jsnum option \<times> jsnum option) list option"

record RolloutPhase =
  ph_name :: string
  ph_percentage :: jsnum
  ph_duration :: jsnum
  ph_criteria :: PhaseCriteria
  audiences :: "string list"

datatype severity = Warning | Critical

record RollbackCondition =
  rc_metric :: string
  rc_threshold :: jsnum
  rc_operator :: comparator
  rc_duration :: jsnum
  rc_severity :: severity

text \<open>
  The description and the monitoring configuration of a plan, which no operation reads,
  are left out. The numeric metrics of a plan are an object that \<^verbatim>\<open>Object.assign\<close> extends with the
  keys of a metrics reading, so they are a map from key to number, next to the
  transition log. A transition made by \<^verbatim>\<open>transitionToPhase\<close> stores the spread
  \<^verbatim>\<open>{ ...plan.metrics }\<close>: a copy of the numbers, and a reference to the transition log
  itself, into which the transition is then pushed. \<open>sharesLog\<close> records that reference:
  a plan whose log holds such a transition is cyclic, and \<^verbatim>\<open>JSON.stringify\<close> raises on it.
\<close>

record PhaseTransition =
  fromPhase :: nat
  toPhase :: nat
  pt_timestamp :: jsnum
  pt_reason :: string
  pt_metrics :: "string \<rightharpoonup> jsnum"
  sharesLog :: bool

record RolloutMetrics =
  m_values :: "string \<rightharpoonup> jsnum"
  phaseTransitions :: "PhaseTransition list"

record RolloutPlan =
  p_id :: string
  p_name :: string
  feature :: string
  strategy :: RolloutStrategy
  phases :: "RolloutPhase list"
  p_startDate :: jsnum
  estimatedCompletion :: jsnum
  actualCompletion :: "jsnum option"
  p_status :: rollout_status
  currentPhase :: nat
  currentPercentage :: jsnum
  rollbackConditions :: "RollbackCondition list"
  p_metrics :: RolloutMetrics

text \<open>
  Values of a user context and of a flag condition. Objects other than arrays are not
  modelled, and an array of a context is never the same object as an array of a
  condition.
\<close>

datatype jsval = VUndef | VNull | VBool bool | VNum jsnum | VStr string | VArr "jsval list"

datatype flag_operator = OpEq | OpNe | OpIn | OpNotIn | OpGt | OpLt

record FlagCondition =
  attribute :: string
  fc_operator :: flag_operator
  fc_value :: jsval

record FlagVariant =
  fv_id :: string
  fv_name :: string
  fv_weight :: jsnum

record FeatureFlag =
  f_id :: string
  f_name :: string
  enabled :: bool
  rolloutPercentage :: jsnum
  targetAudiences :: "string list"
  conditions :: "FlagCondition list"
  f_variants :: "FlagVariant list option"

text \<open>
  The two registries are \<^verbatim>\<open>Map\<close>s that the manager also iterates, in insertion order:
  association lists, read with \<^const>\<open>map_of\<close> and written with \<^const>\<open>AList.update\<close>,
  which replaces the value of a key in place and appends a new key at the end.
\<close>

record RolloutManager =
  abTestManager :: ABTestManager
  activeRollouts :: "(string \<times> RolloutPlan) list"
  featureFlags :: "(string \<times> FeatureFlag) list"
  rm_userId :: string

subsection \<open>Persistence of a plan\<close>

text \<open>
  \<^verbatim>\<open>persistRollout\<close> serialises the plan with \<^verbatim>\<open>JSON.stringify\<close> before it writes
  it; the serialisation is modelled, the write is not.
\<close>

definition persistRollout :: "RolloutPlan \<Rightarrow> error + unit" where
  "persistRollout plan =
     (if list_ex sharesLog (phaseTransitions (p_metrics plan)) then Inl TypeError else Inr ())"

definition setPlan :: "string \<Rightarrow> RolloutPlan \<Rightarrow> RolloutManager \<Rightarrow> RolloutManager" where
  "setPlan rolloutId plan s = s\<lparr>activeRollouts := AList.update rolloutId plan (activeRollouts s)\<rparr>"

text \<open>An assignment to the flag of a plan's feature, when the registry has one.\<close>

definition updateFlag ::
  "string \<Rightarrow> (FeatureFlag \<Rightarrow> FeatureFlag) \<Rightarrow> RolloutManager \<Rightarrow> RolloutManager" where
  "updateFlag key f s =
     (case map_of (featureFlags s) key of
        None \<Rightarrow> s
      | Some featureFlag \<Rightarrow> s\<lparr>featureFlags := AList.update key (f featureFlag) (featureFlags s)\<rparr>)"

subsection \<open>Plans: creation, pause, resume, rollback\<close>

definition initialMetrics :: RolloutMetrics where
  "initialMetrics =
     \<lparr>m_values = map_of [(''usersAffected'', Fin 0), (''errorRate'', Fin 0),
                          (''successRate'', Fin 1), (''averageLatency'', Fin 0),
                          (''userSatisfaction'', Fin 0), (''featureAdoption'', Fin 0),
                          (''rollbacksTriggered'', Fin 0)],
      phaseTransitions = []\<rparr>"

definition createRolloutPlan ::
  "string \<Rightarrow> RolloutPlan \<Rightarrow> RolloutManager \<Rightarrow> (error + string) \<times> RolloutManager" where
  "createRolloutPlan newId plan s =
     (let fullPlan = plan\<lparr>p_id := newId, p_status := Planned, currentPhase := 0,
                          currentPercentage := Fin 0, p_metrics := initialMetrics\<rparr>;
          s1 = setPlan newId fullPlan s
      in case persistRollout fullPlan of
           Inl e \<Rightarrow> (Inl e, s1)
         | Inr _ \<Rightarrow> (Inr newId, s1))"

definition pauseRollout :: "string \<Rightarrow> RolloutManager \<Rightarrow> (error + unit) \<times> RolloutManager" where
  "pauseRollout rolloutId s =
     (case map_of (activeRollouts s) rolloutId of
        None \<Rightarrow> (Inl (RolloutNotFound rolloutId), s)
      | Some plan \<Rightarrow>
          (let plan1 = plan\<lparr>p_status := RPaused\<rparr> in
           (persistRollout plan1, setPlan rolloutId plan1 s)))"

definition resumeRollout :: "string \<Rightarrow> RolloutManager \<Rightarrow> (error + unit) \<times> RolloutManager" where
  "resumeRollout rolloutId s =
     (case map_of (activeRollouts s) rolloutId of
        None \<Rightarrow> (Inl (RolloutNotFound rolloutId), s)
      | Some plan \<Rightarrow>
          (let plan1 = plan\<lparr>p_status := RActive\<rparr> in
           (persistRollout plan1, setPlan rolloutId plan1 s)))"

text \<open>\<^verbatim>\<open>x++\<close> on a property of the metrics object; a missing property becomes \<^verbatim>\<open>NaN\<close>.\<close>

definition increment :: "string \<Rightarrow> (string \<rightharpoonup> jsnum) \<Rightarrow> (string \<rightharpoonup> jsnum)" where
  "increment k m = m(k \<mapsto> (case m k of None \<Rightarrow> NaN | Some v \<Rightarrow> jadd v (Fin 1)))"

definition rollbackRollout ::
  "jsnum \<Rightarrow> string \<Rightarrow> string \<Rightarrow> RolloutManager \<Rightarrow> (error + unit) \<times> RolloutManager" where
  "rollbackRollout now rolloutId reason s =
     (case map_of (activeRollouts s) rolloutId of
        None \<Rightarrow> (Inl (RolloutNotFound rolloutId), s)
      | Some plan \<Rightarrow>
          (let plan1 = plan\<lparr>p_status := RolledBack,
                            p_metrics := (p_metrics plan)
                              \<lparr>m_values := increment ''rollbacksTriggered'' (m_values (p_metrics plan))\<rparr>\<rparr>;
               s1 = setPlan rolloutId plan1 s;
               s2 = updateFlag (feature plan1)
                      (\<lambda>featureFlag. featureFlag\<lparr>enabled := False, rolloutPercentage := Fin 0\<rparr>) s1
           in case stopTest now (''rollout-'' @ rolloutId) (''rollback: '' @ reason) (abTestManager s2) of
                (Inl e, ab) \<Rightarrow> (Inl e, s2\<lparr>abTestManager := ab\<rparr>)
              | (Inr _, ab) \<Rightarrow> (persistRollout plan1, s2\<lparr>abTestManager := ab\<rparr>)))"

subsection \<open>Feature flags\<close>

definition createFeatureFlag :: "string \<Rightarrow> FeatureFlag \<Rightarrow> RolloutManager \<Rightarrow> string \<times> RolloutManager" where
  "createFeatureFlag newId flag s =
     (let fullFlag = flag\<lparr>f_id := newId\<rparr> in
      (newId, s\<lparr>featureFlags := AList.update newId fullFlag (featureFlags s)\<rparr>))"

definition getUserAudiences :: "string list" where
  "getUserAudiences = [''beta'', ''desktop'']"

definition getUserContext :: "RolloutManager \<Rightarrow> (string \<rightharpoonup> jsval)" where
  "getUserContext s =
     map_of [(''userId'', VStr (rm_userId s)), (''platform'', VStr ''web''),
             (''version'', VStr ''2.0.0''), (''locale'', VStr ''en-US'')]"

text \<open>
  \<^verbatim>\<open>===\<close> and the equality of \<^verbatim>\<open>Array.prototype.includes\<close>: they differ on \<^verbatim>\<open>NaN\<close>
  only.
\<close>

fun strictEq :: "jsval \<Rightarrow> jsval \<Rightarrow> bool" where
  "strictEq (VNum a) (VNum b) = (a \<noteq> NaN \<and> a = b)"
| "strictEq (VArr _) _ = False"
| "strictEq _ (VArr _) = False"
| "strictEq a b = (a = b)"

fun sameValueZero :: "jsval \<Rightarrow> jsval \<Rightarrow> bool" where
  "sameValueZero (VArr _) _ = False"
| "sameValueZero _ (VArr _) = False"
| "sameValueZero a b = (a = b)"

text \<open>
  \<^verbatim>\<open>value > condition.value\<close> with a number on the left compares numbers; a condition
  value that is no number is first converted by the language. That conversion
  (\<^verbatim>\<open>ToNumber\<close>) is the parameter \<open>toNumber\<close>.
\<close>

definition numberOf :: "(jsval \<Rightarrow> jsnum) \<Rightarrow> jsval \<Rightarrow> jsnum" where
  "numberOf toNumber v = (case v of VNum y \<Rightarrow> y | _ \<Rightarrow> toNumber v)"

definition evaluateCondition ::
  "(jsval \<Rightarrow> jsnum) \<Rightarrow> (string \<rightharpoonup> jsval) \<Rightarrow> FlagCondition \<Rightarrow> bool" where
  "evaluateCondition toNumber context condition =
     (let val = (case context (attribute condition) of None \<Rightarrow> VUndef | Some v \<Rightarrow> v) in
      case fc_operator condition of
        OpEq \<Rightarrow> strictEq val (fc_value condition)
      | OpNe \<Rightarrow> \<not> strictEq val (fc_value condition)
      | OpIn \<Rightarrow> (case fc_value condition of
                    VArr xs \<Rightarrow> list_ex (\<lambda>x. sameValueZero x val) xs | _ \<Rightarrow> False)
      | OpNotIn \<Rightarrow> (case fc_value condition of
                       VArr xs \<Rightarrow> \<not> list_ex (\<lambda>x. sameValueZero x val) xs | _ \<Rightarrow> False)
      | OpGt \<Rightarrow> (case val of
                    VNum x \<Rightarrow> jgt x (numberOf toNumber (fc_value condition)) | _ \<Rightarrow> False)
      | OpLt \<Rightarrow> (case val of
                    VNum x \<Rightarrow> jlt x (numberOf toNumber (fc_value condition)) | _ \<Rightarrow> False))"

definition evaluateConditions ::
  "(jsval \<Rightarrow> jsnum) \<Rightarrow> FlagCondition list \<Rightarrow> (string \<rightharpoonup> jsval) \<Rightarrow> bool" where
  "evaluateConditions toNumber conds context = list_all (evaluateCondition toNumber context) conds"

definition findFlag :: "RolloutManager \<Rightarrow> string \<Rightarrow> FeatureFlag option" where
  "findFlag s flagName = find (\<lambda>f. f_name f = flagName) (map snd (featureFlags s))"

definition isFeatureEnabled ::
  "(jsval \<Rightarrow> jsnum) \<Rightarrow> real \<Rightarrow> string \<Rightarrow> (string \<rightharpoonup> jsval) option \<Rightarrow> RolloutManager \<Rightarrow> bool" where
  "isFeatureEnabled toNumber r flagName userContext s =
     (case findFlag s flagName of
        None \<Rightarrow> False
      | Some flag \<Rightarrow>
          if \<not> enabled flag then False
          else if jgt (jmul (Fin r) (Fin 100)) (rolloutPercentage flag) then False
          else if targetAudiences flag \<noteq> [] \<and>
                  \<not> list_ex (\<lambda>audience. audience \<in> set getUserAudiences) (targetAudiences flag)
          then False
          else if conditions flag \<noteq> [] \<and>
                  \<not> evaluateConditions toNumber (conditions flag)
                      (getUserContext s ++ (case userContext of None \<Rightarrow> Map.empty | Some c \<Rightarrow> c))
          then False
          else True)"

fun walkFlagVariants :: "jsnum \<Rightarrow> jsnum \<Rightarrow> FlagVariant list \<Rightarrow> string option" where
  "walkFlagVariants x cumulative [] = None"
| "walkFlagVariants x cumulative (v # vs) =
     (let c = jadd cumulative (fv_weight v) in
      if jle x c then Some (fv_id v) else walkFlagVariants x c vs)"

definition getFeatureVariant ::
  "(jsval \<Rightarrow> jsnum) \<Rightarrow> real \<Rightarrow> string \<Rightarrow> (string \<rightharpoonup> jsval) option \<Rightarrow> RolloutManager
     \<Rightarrow> string option" where
  "getFeatureVariant toNumber r flagName userContext s =
     (case findFlag s flagName of
        None \<Rightarrow> None
      | Some flag \<Rightarrow>
          if \<not> enabled flag then None
          else (case f_variants flag of
                  None \<Rightarrow> None
                | Some vs \<Rightarrow>
                    if \<not> isFeatureEnabled toNumber r flagName userContext s then None
                    else (case walkFlagVariants (hashPercentage (rm_userId s @ flagName)) (Fin 0) vs of
                            Some i \<Rightarrow> Some i
                          | None \<Rightarrow>
                              (case vs of
                                 [] \<Rightarrow> None
                               | v # _ \<Rightarrow> if fv_id v \<noteq> [] then Some (fv_id v) else None))))"

subsection \<open>Phases\<close>

text \<open>The rollout manager's metrics source is a stub of six random draws.\<close>

record metric_draws =
  md_successRate :: real
  md_errorRate :: real
  md_latency :: real
  md_userSatisfaction :: real
  md_featureAdoption :: real
  md_usersAffected :: real

definition getCurrentMetrics :: "metric_draws \<Rightarrow> (string \<rightharpoonup> jsnum)" where
  "getCurrentMetrics d =
     map_of [(''successRate'', jadd (Fin 0.95) (jmul (Fin (md_successRate d)) (Fin 0.05))),
             (''errorRate'', jmul (Fin (md_errorRate d)) (Fin 0.02)),
             (''latency'', jadd (Fin 100) (jmul (Fin (md_latency d)) (Fin 50))),
             (''userSatisfaction'', jadd (Fin 4) (jmul (Fin (md_userSatisfaction d)) (Fin 1))),
             (''featureAdoption'', jmul (Fin (md_featureAdoption d)) (Fin 100)),
             (''usersAffected'', jfloor (jmul (Fin (md_usersAffected d)) (Fin 10000)))]"

definition evaluatePhaseCriteria :: "PhaseCriteria \<Rightarrow> (string \<rightharpoonup> jsnum) \<Rightarrow> bool" where
  "evaluatePhaseCriteria c ms =
     (if compareMetric Lt (ms ''successRate'') (minSuccessRate c) then False
      else if compareMetric Gt (ms ''errorRate'') (maxErrorRate c) then False
      else if compareMetric Gt (ms ''latency'') (maxLatencyIncrease c) then False
      else if (case minUserSatisfaction c of
                 None \<Rightarrow> False
               | Some u \<Rightarrow> truthy u \<and> compareMetric Lt (ms ''userSatisfaction'') u) then False
      else (case customMetrics c of
              None \<Rightarrow> True
            | Some bounds \<Rightarrow>
                list_all (\<lambda>(metric, lo, hi).
                    \<not> (case lo of None \<Rightarrow> False | Some b \<Rightarrow> compareMetric Lt (ms metric) b) \<and>
                    \<not> (case hi of None \<Rightarrow> False | Some b \<Rightarrow> compareMetric Gt (ms metric) b))
                  bounds))"

definition evaluateRollbackCondition :: "RollbackCondition \<Rightarrow> (string \<rightharpoonup> jsnum) \<Rightarrow> bool" where
  "evaluateRollbackCondition condition ms =
     compareMetric (rc_operator condition) (ms (rc_metric condition)) (rc_threshold condition)"

definition shouldTriggerRollback :: "RolloutPlan \<Rightarrow> (string \<rightharpoonup> jsnum) \<Rightarrow> bool" where
  "shouldTriggerRollback plan ms =
     list_ex (\<lambda>condition. rc_severity condition = Critical \<and> evaluateRollbackCondition condition ms)
       (rollbackConditions plan)"

definition completeRollout ::
  "jsnum \<Rightarrow> string \<Rightarrow> RolloutManager \<Rightarrow> (error + unit) \<times> RolloutManager" where
  "completeRollout now rolloutId s =
     (case map_of (activeRollouts s) rolloutId of
        None \<Rightarrow> (Inr (), s)
      | Some plan \<Rightarrow>
          (let plan1 = plan\<lparr>p_status := RCompleted, actualCompletion := Some now,
                            currentPercentage := Fin 100\<rparr>;
               s1 = setPlan rolloutId plan1 s;
               s2 = updateFlag (feature plan1)
                      (\<lambda>featureFlag. featureFlag\<lparr>rolloutPercentage := Fin 100\<rparr>) s1
           in case stopTest now (''rollout-'' @ rolloutId) ''rollout_complete'' (abTestManager s2) of
                (Inl e, ab) \<Rightarrow> (Inl e, s2\<lparr>abTestManager := ab\<rparr>)
              | (Inr _, ab) \<Rightarrow> (persistRollout plan1, s2\<lparr>abTestManager := ab\<rparr>)))"

definition transitionToPhase ::
  "jsnum \<Rightarrow> string \<Rightarrow> nat \<Rightarrow> RolloutManager \<Rightarrow> (error + unit) \<times> RolloutManager" where
  "transitionToPhase now rolloutId phaseIndex s =
     (case map_of (activeRollouts s) rolloutId of
        None \<Rightarrow> (Inr (), s)
      | Some plan \<Rightarrow>
          if length (phases plan) \<le> phaseIndex then completeRollout now rolloutId s
          else
            (let phase = phases plan ! phaseIndex;
                 transition = \<lparr>fromPhase = currentPhase plan, toPhase = phaseIndex,
                               pt_timestamp = now, pt_reason = ''scheduled'',
                               pt_metrics = m_values (p_metrics plan), sharesLog = True\<rparr>;
                 plan1 = plan\<lparr>p_metrics := (p_metrics plan)
                                 \<lparr>phaseTransitions := phaseTransitions (p_metrics plan) @ [transition]\<rparr>,
                              currentPhase := phaseIndex,
                              currentPercentage := ph_percentage phase\<rparr>;
                 s1 = setPlan rolloutId plan1 s;
                 s2 = updateFlag (feature plan1)
                        (\<lambda>featureFlag. featureFlag\<lparr>rolloutPercentage := ph_percentage phase\<rparr>) s1
             in (persistRollout plan1, s2)))"

definition evaluatePhaseTransition ::
  "jsnum \<Rightarrow> metric_draws \<Rightarrow> string \<Rightarrow> nat \<Rightarrow> RolloutManager \<Rightarrow> (error + unit) \<times> RolloutManager" where
  "evaluatePhaseTransition now d rolloutId currentPhaseIndex s =
     (case map_of (activeRollouts s) rolloutId of
        None \<Rightarrow> (Inr (), s)
      | Some plan \<Rightarrow>
          if p_status plan \<noteq> RActive then (Inr (), s)
          else if length (phases plan) \<le> currentPhaseIndex then (Inl TypeError, s)
          else
            (let phase = phases plan ! currentPhaseIndex;
                 currentMetrics = getCurrentMetrics d
             in if evaluatePhaseCriteria (ph_criteria phase) currentMetrics
                then transitionToPhase now rolloutId (currentPhaseIndex + 1) s
                else if shouldTriggerRollback plan currentMetrics
                then rollbackRollout now rolloutId ''Phase criteria not met'' s
                else pauseRollout rolloutId s))"

subsection \<open>Starting a rollout\<close>

text \<open>
  The experiment that mirrors a rollout: control against the feature at the percentage of
  the first phase. Its configuration has no start date. \<^verbatim>\<open>createTest\<close> stores it under
  the identifier it makes itself; \<^verbatim>\<open>startTest\<close> is then called with the identifier
  \<^verbatim>\<open>rollout-\<close> followed by the id of the plan.
\<close>

definition rolloutTestConfig :: "RolloutPlan \<Rightarrow> RolloutPhase \<Rightarrow> ABTest" where
  "rolloutTestConfig plan phase0 =
     \<lparr>t_id = [], t_name = ''Rollout: '' @ p_name plan, t_status = Draft,
      variants =
        [\<lparr>v_id = ''control'', v_name = ''Control (Old Version)'',
          v_weight = dsub (Fin 100) (ph_percentage phase0), v_isControl = True\<rparr>,
         \<lparr>v_id = ''treatment'', v_name = ''Treatment (New Feature)'',
          v_weight = ph_percentage phase0, v_isControl = False\<rparr>],
      targetAudience =
        \<lparr>criteria = \<lparr>userType = Some (if s_targetAudience (strategy plan) = ForBeta then Beta else All),
                      experience = None, platform = None\<rparr>,
         ta_percentage = Fin 100, exclusions = None\<rparr>,
      allocation =
        \<lparr>a_type = Gradual, seed = None,
         gradualRollout = Some \<lparr>initialPercentage = ph_percentage phase0,
                                incrementPercentage = Fin 10, incrementInterval = Fin 24,
                                maxPercentage = Fin 100\<rparr>\<rparr>,
      t_startDate = NaN, endDate = None, createdDate = NaN,
      primaryMetric = ''conversion'', secondaryMetrics = [''engagement'', ''satisfaction''],
      minimumSampleSize = Fin 1000, confidenceLevel = Fin 0.95, results = None,
      safeguards =
        \<lparr>sg_maxErrorRate =
           (case find (\<lambda>c. rc_metric c = ''errorRate'') (rollbackConditions plan) of
              Some c \<Rightarrow> if truthy (rc_threshold c) then rc_threshold c else Fin 0.1
            | None \<Rightarrow> Fin 0.1),
         sg_maxLatencyIncrease =
           (case find (\<lambda>c. rc_metric c = ''latency'') (rollbackConditions plan) of
              Some c \<Rightarrow> if truthy (rc_threshold c) then rc_threshold c else Fin 500
            | None \<Rightarrow> Fin 500),
         sg_minSuccessRate = Fin 0.95, monitoringInterval = Fin 5\<rparr>,
      rollbackTriggers =
        map (\<lambda>c. \<lparr>rt_metric = rc_metric c, rt_condition = rc_operator c,
                  rt_threshold = rc_threshold c, rt_duration = rc_duration c\<rparr>)
          (rollbackConditions plan)\<rparr>"

definition createRolloutABTest ::
  "jsnum \<Rightarrow> string \<Rightarrow> RolloutPlan \<Rightarrow> ABTestManager \<Rightarrow> (error + unit) \<times> ABTestManager" where
  "createRolloutABTest now newTestId plan ab =
     (case phases plan of
        [] \<Rightarrow> (Inl TypeError, ab)
      | phase0 # _ \<Rightarrow>
          (case createTest newTestId now (rolloutTestConfig plan phase0) ab of
             (Inl e, ab1) \<Rightarrow> (Inl e, ab1)
           | (Inr _, ab1) \<Rightarrow> startTest now (''rollout-'' @ p_id plan) ab1))"

definition startRollout ::
  "jsnum \<Rightarrow> string \<Rightarrow> string \<Rightarrow> RolloutManager \<Rightarrow> (error + unit) \<times> RolloutManager" where
  "startRollout now newTestId rolloutId s =
     (case map_of (activeRollouts s) rolloutId of
        None \<Rightarrow> (Inl (RolloutNotFound rolloutId), s)
      | Some plan \<Rightarrow>
          (let plan1 = plan\<lparr>p_status := RActive, p_startDate := now\<rparr>;
               s1 = setPlan rolloutId plan1 s
           in case createRolloutABTest now newTestId plan1 (abTestManager s1) of
                (Inl e, ab) \<Rightarrow> (Inl e, s1\<lparr>abTestManager := ab\<rparr>)
              | (Inr _, ab) \<Rightarrow> transitionToPhase now rolloutId 0 (s1\<lparr>abTestManager := ab\<rparr>)))"

subsection \<open>The periodic check\<close>

text \<open>
  One pass over the registry, in insertion order. Each active plan takes a fresh metrics
  reading (\<open>drawsFor\<close> gives the draws of the reading made for a plan), copies it into its
  own metrics, and is rolled back at the first rollback condition the reading breaches.
  An error raised by the rollback ends the pass.
\<close>

fun checkLoop ::
  "jsnum \<Rightarrow> (string \<Rightarrow> metric_draws) \<Rightarrow> string list \<Rightarrow> RolloutManager
     \<Rightarrow> (error + unit) \<times> RolloutManager" where
  "checkLoop now drawsFor [] s = (Inr (), s)"
| "checkLoop now drawsFor (rolloutId # rest) s =
     (case map_of (activeRollouts s) rolloutId of
        None \<Rightarrow> checkLoop now drawsFor rest s
      | Some plan \<Rightarrow>
          if p_status plan \<noteq> RActive then checkLoop now drawsFor rest s
          else
            (let currentMetrics = getCurrentMetrics (drawsFor rolloutId);
                 plan1 = plan\<lparr>p_metrics := (p_metrics plan)
                                 \<lparr>m_values := m_values (p_metrics plan) ++ currentMetrics\<rparr>\<rparr>;
                 s1 = setPlan rolloutId plan1 s
             in case find (\<lambda>condition. evaluateRollbackCondition condition currentMetrics)
                       (rollbackConditions plan1) of
                  None \<Rightarrow> checkLoop now drawsFor rest s1
                | Some condition \<Rightarrow>
                    (case rollbackRollout now rolloutId
                            (''Rollback condition triggered: '' @ rc_metric condition) s1 of
                       (Inl e, s2) \<Rightarrow> (Inl e, s2)
                     | (Inr _, s2) \<Rightarrow> checkLoop now drawsFor rest s2)))"

definition checkActiveRollouts ::
  "jsnum \<Rightarrow> (string \<Rightarrow> metric_draws) \<Rightarrow> RolloutManager \<Rightarrow> (error + unit) \<times> RolloutManager" where
  "checkActiveRollouts now drawsFor s = checkLoop now drawsFor (map fst (activeRollouts s)) s"

section \<open>Sequences of operations\<close>

text \<open>
  The operations of the test manager that a caller or a timer can run, with the inputs
  each takes from its environment.
\<close>

datatype ab_op =
    CreateTest string jsnum ABTest
  | StartTest jsnum string
  | StopTest jsnum string string
  | GetAssignment jsnum draws string
  | TrackEvent jsnum string string "jsnum option" "(string \<times> string) list option"
  | CheckSafeguards test_metric_draws string

fun ab_exec :: "ab_op \<Rightarrow> ABTestManager \<Rightarrow> ABTestManager" where
  "ab_exec (CreateTest newId now testConfig) m = snd (createTest newId now testConfig m)"
| "ab_exec (StartTest now testId) m = snd (startTest now testId m)"
| "ab_exec (StopTest now testId reason) m = snd (stopTest now testId reason m)"
| "ab_exec (GetAssignment now d testId) m = snd (getAssignment now d testId m)"
| "ab_exec (TrackEvent now testId evType evValue meta) m = trackEvent now testId evType evValue meta m"
| "ab_exec (CheckSafeguards d testId) m = checkSafeguards d testId m"

definition ab_run :: "ab_op list \<Rightarrow> ABTestManager \<Rightarrow> ABTestManager" where
  "ab_run ops m = fold ab_exec ops m"

text \<open>The metrics table that \<^verbatim>\<open>calculateResults\<close> builds for a test.\<close>

definition metricsTable :: "ABTestManager \<Rightarrow> string \<Rightarrow> ABTest \<Rightarrow> (string \<rightharpoonup> VariantMetrics)" where
  "metricsTable m testId t =
     snd (variantTables (filter (\<lambda>e. e_testId e = testId) (testEvents m)) (primaryMetric t)
            (variants t) (Map.empty, Map.empty))"






section \<open>Example states\<close>

definition exControl :: ABVariant where
  "exControl = \<lparr>v_id = ''control'', v_name = ''Control'', v_weight = Fin 50, v_isControl = True\<rparr>"

definition exTreatment :: ABVariant where
  "exTreatment = \<lparr>v_id = ''treatment'', v_name = ''Treatment'', v_weight = Fin 50, v_isControl = False\<rparr>"

definition exTest :: ABTest where
  "exTest =
     \<lparr>t_id = ''exp1'', t_name = ''Example'', t_status = Active,
      variants = [exControl, exTreatment],
      targetAudience = \<lparr>criteria = \<lparr>userType = None, experience = None, platform = None\<rparr>,
                        ta_percentage = Fin 100, exclusions = None\<rparr>,
      allocation = \<lparr>a_type = Deterministic, seed = None, gradualRollout = None\<rparr>,
      t_startDate = Fin 0, endDate = None, createdDate = Fin 0,
      primaryMetric = ''conversion'', secondaryMetrics = [],
      minimumSampleSize = Fin 100, confidenceLevel = Fin 0.95, results = None,
      safeguards = \<lparr>sg_maxErrorRate = Fin 0.1, sg_maxLatencyIncrease = Fin 500,
                    sg_minSuccessRate = Fin 0.9, monitoringInterval = Fin 5\<rparr>,
      rollbackTriggers = []\<rparr>"

definition exAssignment :: UserAssignment where
  "exAssignment = \<lparr>ua_userId = ''u1'', ua_testId = ''exp1'', ua_variantId = ''treatment'',
                    assignedAt = Fin 1, isActive = True\<rparr>"

definition exDraws :: draws where
  "exDraws = \<lparr>d_eligible = 0.5, d_gradual = 0.5, d_random = 0.5\<rparr>"

text \<open>A manager of user \<open>u1\<close> with one active test and no assignment.\<close>

definition exFresh :: ABTestManager where
  "exFresh = \<lparr>activeTests = [''exp1'' \<mapsto> exTest], userAssignments = Map.empty,
              testEvents = [], userId = ''u1''\<rparr>"

text \<open>The manager after a first call of \<^verbatim>\<open>getAssignment\<close> at time 1 gave the user the control.\<close>

definition exFirstCall :: ABTestManager where
  "exFirstCall = recordAssignment (Fin 1) ''exp1'' ''control'' exFresh"

text \<open>The manager with a stored assignment of the user to the treatment.\<close>

definition exAssigned :: ABTestManager where
  "exAssigned = exFresh\<lparr>userAssignments := [''u1'' \<mapsto> [exAssignment]]\<rparr>"

text \<open>The manager with the assignment, its test paused.\<close>

definition exPaused :: ABTestManager where
  "exPaused = exAssigned\<lparr>activeTests := [''exp1'' \<mapsto> exTest\<lparr>t_status := Paused\<rparr>]\<rparr>"

text \<open>A manager whose only test has a single variant, the control.\<close>

definition exSolo :: ABTestManager where
  "exSolo = exFresh\<lparr>activeTests := [''exp1'' \<mapsto> exTest\<lparr>variants := [exControl]\<rparr>]\<rparr>"

text \<open>A manager with one flag at 50 percent that has two variants.\<close>

definition exVariantX :: FlagVariant where
  "exVariantX = \<lparr>fv_id = ''x'', fv_name = ''X'', fv_weight = Fin 50\<rparr>"

definition exVariantY :: FlagVariant where
  "exVariantY = \<lparr>fv_id = ''y'', fv_name = ''Y'', fv_weight = Fin 50\<rparr>"

definition exFlag :: FeatureFlag where
  "exFlag = \<lparr>f_id = ''f1'', f_name = ''newUI'', enabled = True, rolloutPercentage = Fin 50,
             targetAudiences = [], conditions = [], f_variants = Some [exVariantX, exVariantY]\<rparr>"

definition exEmptyAB :: ABTestManager where
  "exEmptyAB = \<lparr>activeTests = Map.empty, userAssignments = Map.empty, testEvents = [],
                userId = ''u1''\<rparr>"

definition exFlags :: RolloutManager where
  "exFlags = \<lparr>abTestManager = exEmptyAB, activeRollouts = [], featureFlags = [(''f1'', exFlag)],
              rm_userId = ''u1''\<rparr>"

text \<open>The total weight that \<^verbatim>\<open>validateTestConfig\<close> computes.\<close>

definition totalWeight :: "ABTest \<Rightarrow> jsnum" where
  "totalWeight test = foldl (\<lambda>sum v. dadd sum (v_weight v)) (Fin 0) (variants test)"

text \<open>Configurations for creation: a test without a control, a flag whose weights sum to 30, a plan.\<close>

definition exNoControl :: ABTest where
  "exNoControl = exTest\<lparr>variants := [exTreatment\<lparr>v_weight := Fin 100\<rparr>]\<rparr>"

definition exBadFlag :: FeatureFlag where
  "exBadFlag = exFlag\<lparr>f_variants := Some [exVariantX\<lparr>fv_weight := Fin 30\<rparr>]\<rparr>"

definition exPhase :: "real \<Rightarrow> RolloutPhase" where
  "exPhase pct =
     \<lparr>ph_name = ''phase'', ph_percentage = Fin pct, ph_duration = Fin 24,
      ph_criteria = \<lparr>minSuccessRate = Fin 0.95, maxErrorRate = Fin 0.05,
                     maxLatencyIncrease = Fin 500, minUserSatisfaction = None,
                     customMetrics = None\<rparr>,
      audiences = []\<rparr>"

definition exPlan :: RolloutPlan where
  "exPlan =
     \<lparr>p_id = [], p_name = ''New UI'', feature = ''f1'',
      strategy = \<lparr>s_type = GradualStrategy, s_targetAudience = ForBeta, rollbackStrategy = Immediate\<rparr>,
      phases = [exPhase 10, exPhase 25, exPhase 100],
      p_startDate = Fin 0, estimatedCompletion = Fin 0, actualCompletion = None,
      p_status = Planned, currentPhase = 0, currentPercentage = Fin 0,
      rollbackConditions =
        [\<lparr>rc_metric = ''errorRate'', rc_threshold = Fin 0.01, rc_operator = Gt,
          rc_duration = Fin 5, rc_severity = Warning\<rparr>],
      p_metrics = initialMetrics\<rparr>"

text \<open>A manager whose only test is active and has no variant at all.\<close>

definition exNoVariants :: ABTestManager where
  "exNoVariants = exFresh\<lparr>activeTests := [''exp1'' \<mapsto> exTest\<lparr>variants := []\<rparr>]\<rparr>"

text \<open>
  A configuration with the weights \<^verbatim>\<open>100\<close> and \<^verbatim>\<open>0.01\<close>: in double arithmetic their
  sum is further than 0.01 from 100.
\<close>

definition exBoundary :: ABTest where
  "exBoundary =
     exTest\<lparr>variants := [exControl\<lparr>v_weight := Fin 100\<rparr>, exTreatment\<lparr>v_weight := fl (1 / 100)\<rparr>]\<rparr>"


text \<open>A metrics reading: the draw for the error rate gives 0.015.\<close>

definition exReading :: metric_draws where
  "exReading = \<lparr>md_successRate = 0.5, md_errorRate = 0.75, md_latency = 0.5,
                md_userSatisfaction = 0.5, md_featureAdoption = 0.5, md_usersAffected = 0.5\<rparr>"

text \<open>A manager that has a flag, and no plan and no test yet.\<close>

definition exRM0 :: RolloutManager where
  "exRM0 = \<lparr>abTestManager = exEmptyAB, activeRollouts = [], featureFlags = [(''f1'', exFlag)],
            rm_userId = ''u1''\<rparr>"

text \<open>
  A manager as it is after loading an active plan in its first phase, the flag of the
  plan's feature and the running experiment that mirrors the plan.
\<close>

definition exRM :: RolloutManager where
  "exRM =
     \<lparr>abTestManager = exEmptyAB\<lparr>activeTests := [''rollout-r1'' \<mapsto> exTest\<lparr>t_id := ''rollout-r1''\<rparr>]\<rparr>,
      activeRollouts = [(''r1'', exPlan\<lparr>p_id := ''r1'', p_status := RActive,
                                         currentPercentage := Fin 10\<rparr>)],
      featureFlags = [(''f1'', exFlag\<lparr>rolloutPercentage := Fin 10\<rparr>)],
      rm_userId = ''u1''\<rparr>"

text \<open>
  The manager after a plan is created and started in it: the start raises, because the
  experiment that was created for the plan is stored under an identifier of its own, and
  leaves the plan active.
\<close>

definition exStarted :: RolloutManager where
  "exStarted = snd (startRollout (Fin 1) ''t1'' ''r1'' (snd (createRolloutPlan ''r1'' exPlan exRM0)))"

section \<open>Double arithmetic\<close>

lemma pow2_powr: "pow2 e = 2 powr (of_int e)"
  by (simp add: pow2_def powr_real_of_int inverse_eq_divide)

lemma roundHalfEven_of_int [simp]: "roundHalfEven (of_int k) = k"
  by (simp add: roundHalfEven_def)

text \<open>The value of \<open>fl\<close> at a number whose binary exponent is known.\<close>

lemma fl_at:
  assumes "pow2 e \<le> \<bar>x\<bar>" and "\<bar>x\<bar> < pow2 (e + 1)" and "- 1022 \<le> e"
    and "\<bar>of_int (roundHalfEven (x / pow2 (e - 52))) * pow2 (e - 52)\<bar> < 2 ^ 1024"
  shows "fl x = Fin (of_int (roundHalfEven (x / pow2 (e - 52))) * pow2 (e - 52))"
proof -
  have pos: "0 < pow2 e" by (simp add: pow2_def)
  with assms(1) have x: "0 < \<bar>x\<bar>" by linarith
  have "\<lfloor>log 2 \<bar>x\<bar>\<rfloor> = e"
    using assms(1,2) x by (simp add: floor_log_eq_powr_iff pow2_powr)
  with assms(3,4) x show ?thesis
    by (simp add: fl_def Let_def max_def)
qed

text \<open>An integer below \<open>2\<close> to the \<open>53\<close> in magnitude is a double.\<close>

lemma fl_of_int:
  assumes "\<bar>n\<bar> < 2 ^ 53"
  shows "fl (of_int n) = Fin (of_int n)"
proof (cases "n = 0")
  case True
  then show ?thesis by (simp add: fl_def)
next
  case False
  define e where "e = \<lfloor>log 2 \<bar>real_of_int n\<bar>\<rfloor>"
  have n1: "1 \<le> \<bar>real_of_int n\<bar>"
    using False by (simp flip: of_int_abs add: Ints_nonzero_abs_ge1)
  have pw: "2 powr (of_int e) \<le> \<bar>real_of_int n\<bar>" "\<bar>real_of_int n\<bar> < 2 powr (of_int (e + 1))"
    using floor_log_eq_powr_iff [of "\<bar>real_of_int n\<bar>" 2 e] n1 by (simp_all add: e_def)
  have e0: "0 \<le> e" using n1 by (simp add: e_def)
  have small: "\<bar>real_of_int n\<bar> < 2 ^ 53"
    using assms by (simp flip: of_int_abs add: of_int_less_iff [symmetric] del: of_int_less_iff)
  with pw(1) have "(2::real) powr (of_int e) < 2 ^ 53" by linarith
  also have "(2::real) ^ 53 = 2 powr (of_int 53)" by simp
  finally have e53: "e < 53" by (simp del: of_int_numeral powr_numeral)
  have ulp: "pow2 (e - 52) = 1 / 2 ^ nat (52 - e)"
    using e53 by (auto simp: pow2_def)
  have q: "real_of_int n / pow2 (e - 52) = of_int (n * 2 ^ nat (52 - e))"
    by (simp add: ulp)
  have y: "of_int (roundHalfEven (real_of_int n / pow2 (e - 52))) * pow2 (e - 52) = real_of_int n"
    unfolding q roundHalfEven_of_int by (simp add: ulp)
  have big: "\<bar>real_of_int n\<bar> < 2 ^ 1024"
  proof -
    have "(2::real) ^ 53 \<le> 2 ^ 1024" by (rule power_increasing) simp_all
    with small show ?thesis by linarith
  qed
  have a1: "pow2 e \<le> \<bar>real_of_int n\<bar>" using pw(1) by (simp add: pow2_powr)
  have a2: "\<bar>real_of_int n\<bar> < pow2 (e + 1)" using pw(2) by (simp add: pow2_powr)
  have a3: "- 1022 \<le> e" using e0 by simp
  have a4: "\<bar>of_int (roundHalfEven (real_of_int n / pow2 (e - 52))) * pow2 (e - 52)\<bar> < 2 ^ 1024"
    unfolding y by (rule big)
  from fl_at [OF a1 a2 a3 a4] y show ?thesis by simp
qed

lemma fl_numeral [simp]:
  "\<bar>numeral k :: int\<bar> < 2 ^ 53 \<Longrightarrow> fl (numeral k) = Fin (numeral k)"
  "\<bar>numeral k :: int\<bar> < 2 ^ 53 \<Longrightarrow> fl (- numeral k) = Fin (- numeral k)"
  using fl_of_int [of "numeral k"] fl_of_int [of "- numeral k"] by simp_all

lemma fl_zero [simp]: "fl 0 = Fin 0"
  by (simp add: fl_def)

text \<open>
  The double of the literal \<^verbatim>\<open>0.01\<close>, a little above a hundredth, and the sum
  \<^verbatim>\<open>100 + 0.01\<close> and its distance from 100 in double arithmetic.
\<close>

lemma fl_hundredth: "fl (1 / 100) = Fin (5764607523034235 / 576460752303423488)"
proof -
  have "fl (1 / 100) = Fin (of_int (roundHalfEven ((1 / 100) / pow2 (- 7 - 52))) * pow2 (- 7 - 52))"
    by (rule fl_at) (simp_all add: pow2_def roundHalfEven_def)
  then show ?thesis by (simp add: pow2_def roundHalfEven_def)
qed

lemma fl_sum_example:
  "fl (100 + 5764607523034235 / 576460752303423488) = Fin (7037578105208177 / 70368744177664)"
proof -
  let ?x = "100 + 5764607523034235 / 576460752303423488 :: real"
  have "fl ?x = Fin (of_int (roundHalfEven (?x / pow2 (6 - 52))) * pow2 (6 - 52))"
    by (rule fl_at) (simp_all add: pow2_def roundHalfEven_def)
  then show ?thesis by (simp add: pow2_def roundHalfEven_def)
qed

lemma fl_diff_example:
  "fl (7037578105208177 / 70368744177664 - 100) = Fin (703687441777 / 70368744177664)"
proof -
  let ?x = "7037578105208177 / 70368744177664 - 100 :: real"
  have "fl ?x = Fin (of_int (roundHalfEven (?x / pow2 (- 7 - 52))) * pow2 (- 7 - 52))"
    by (rule fl_at) (simp_all add: pow2_def roundHalfEven_def)
  then show ?thesis by (simp add: pow2_def roundHalfEven_def)
qed

section \<open>Assignments and events\<close>

lemma find_append_Some: "find P xs = Some a \<Longrightarrow> find P (xs @ ys) = Some a"
  by (induction xs) (auto split: if_splits)

lemma find_append_None: "find P xs = None \<Longrightarrow> find P (xs @ ys) = find P ys"
  by (induction xs) (auto split: if_splits)

lemma getUserAssignment_recordAssignment:
  "getUserAssignment m testId = Some a \<Longrightarrow>
   getUserAssignment (recordAssignment now t v m) testId = Some a"
  by (auto simp: getUserAssignment_def recordAssignment_def Let_def find_append_Some
      split: option.splits)

text \<open>What each operation leaves alone.\<close>

lemma triggerRollback_fields:
  "userAssignments (triggerRollback t r m) = userAssignments m"
  "userId (triggerRollback t r m) = userId m"
  "testEvents (triggerRollback t r m) = testEvents m"
  by (auto simp: triggerRollback_def split: option.splits)

lemma checkSafeguards_fields:
  "userAssignments (checkSafeguards d t m) = userAssignments m"
  "userId (checkSafeguards d t m) = userId m"
  "testEvents (checkSafeguards d t m) = testEvents m"
  by (auto simp: checkSafeguards_def Let_def triggerRollback_fields split: option.splits)

lemma createTest_fields:
  "userAssignments (snd (createTest i n c m)) = userAssignments m"
  "userId (snd (createTest i n c m)) = userId m"
  "testEvents (snd (createTest i n c m)) = testEvents m"
  by (auto simp: createTest_def Let_def split: sum.splits)

lemma startTest_fields:
  "userAssignments (snd (startTest n t m)) = userAssignments m"
  "userId (snd (startTest n t m)) = userId m"
  "testEvents (snd (startTest n t m)) = testEvents m"
  by (auto simp: startTest_def split: option.splits)

lemma stopTest_fields:
  "userAssignments (snd (stopTest n t r m)) = userAssignments m"
  "userId (snd (stopTest n t r m)) = userId m"
  "testEvents (snd (stopTest n t r m)) = testEvents m"
  by (auto simp: stopTest_def Let_def split: option.splits sum.splits)

lemma trackEvent_fields:
  "userAssignments (trackEvent n t e v md m) = userAssignments m"
  "userId (trackEvent n t e v md m) = userId m"
  "activeTests (trackEvent n t e v md m) = activeTests m"
  by (auto simp: trackEvent_def split: option.splits)

lemma getAssignment_fields:
  "userId (snd (getAssignment n d t m)) = userId m"
  "testEvents (snd (getAssignment n d t m)) = testEvents m"
  "activeTests (snd (getAssignment n d t m)) = activeTests m"
  by (auto simp: getAssignment_def recordAssignment_def Let_def split: option.splits sum.splits)

lemma getUserAssignment_cong:
  "userAssignments m' = userAssignments m \<Longrightarrow> userId m' = userId m \<Longrightarrow>
   getUserAssignment m' t = getUserAssignment m t"
  by (simp add: getUserAssignment_def)

lemma getUserAssignment_getAssignment:
  "getUserAssignment m testId = Some a \<Longrightarrow>
   getUserAssignment (snd (getAssignment n d t m)) testId = Some a"
  by (auto simp: getAssignment_def getUserAssignment_recordAssignment split: option.splits sum.splits)

lemma getUserAssignment_exec:
  "getUserAssignment m testId = Some a \<Longrightarrow> getUserAssignment (ab_exec op m) testId = Some a"
  by (cases op)
     (simp_all add: getUserAssignment_getAssignment
        getUserAssignment_cong [OF createTest_fields(1,2)]
        getUserAssignment_cong [OF startTest_fields(1,2)]
        getUserAssignment_cong [OF stopTest_fields(1,2)]
        getUserAssignment_cong [OF trackEvent_fields(1,2)]
        getUserAssignment_cong [OF checkSafeguards_fields(1,2)])

lemma getUserAssignment_run:
  "getUserAssignment m testId = Some a \<Longrightarrow> getUserAssignment (ab_run ops m) testId = Some a"
  unfolding ab_run_def by (induction ops arbitrary: m) (simp_all add: getUserAssignment_exec)

lemma testEvents_exec: "prefix (testEvents m) (testEvents (ab_exec op m))"
  by (cases op)
     (auto simp: createTest_fields startTest_fields stopTest_fields getAssignment_fields
        checkSafeguards_fields trackEvent_def split: option.splits)

lemma testEvents_run: "prefix (testEvents m) (testEvents (ab_run ops m))"
  unfolding ab_run_def
proof (induction ops arbitrary: m)
  case Nil
  show ?case by simp
next
  case (Cons op ops)
  have "prefix (testEvents m) (testEvents (ab_exec op m))" by (rule testEvents_exec)
  also have "prefix \<dots> (testEvents (fold ab_exec ops (ab_exec op m)))" by (rule Cons.IH)
  finally show ?case by simp
qed

text \<open>
  A call of \<^verbatim>\<open>getAssignment\<close> that returns a variant leaves the user with an active
  assignment to that variant, the one it found or the one it recorded.
\<close>

lemma getAssignment_records:
  assumes "getAssignment now d testId m = (Inr (Some v), m')"
  shows "\<exists>a. getUserAssignment m' testId = Some a \<and> ua_variantId a = v"
proof (cases "getUserAssignment m testId")
  case (Some a)
  with assms show ?thesis
    by (auto simp: getAssignment_def split: option.splits if_splits)
next
  case None
  with assms have m': "m' = recordAssignment now testId v m"
    by (auto simp: getAssignment_def split: option.splits if_splits sum.splits)
  from None have "find (\<lambda>a. ua_testId a = testId \<and> isActive a)
      ((case userAssignments m (userId m) of None \<Rightarrow> [] | Some as \<Rightarrow> as) @
       [\<lparr>ua_userId = userId m, ua_testId = testId, ua_variantId = v, assignedAt = now,
         isActive = True\<rparr>]) =
      Some \<lparr>ua_userId = userId m, ua_testId = testId, ua_variantId = v, assignedAt = now,
            isActive = True\<rparr>"
    by (simp add: getUserAssignment_def find_append_None)
  then show ?thesis
    by (simp add: m' getUserAssignment_def recordAssignment_def Let_def)
qed

text \<open>
  C4. Assignments are sticky. Let the user have an active assignment \<open>a\<close> for a test (the
  one \<^verbatim>\<open>getUserAssignment\<close> finds; it is there after any call of \<^verbatim>\<open>getAssignment\<close>
  that returned its variant). After any sequence of operations of the manager, whenever
  the test is active, \<^verbatim>\<open>getAssignment\<close> returns the variant of \<open>a\<close>, whatever the
  allocation strategy, the clock and the random draws are, and leaves the manager as it
  is: neither eligibility nor allocation runs again, and no new assignment is recorded.
\<close>

theorem assignment_sticky:
  assumes "getUserAssignment m testId = Some a"
    and "activeTests (ab_run ops m) testId = Some t"
    and "t_status t = Active"
  shows "getAssignment now d testId (ab_run ops m) = (Inr (Some (ua_variantId a)), ab_run ops m)"
  using getUserAssignment_run [OF assms(1), of ops] assms(2,3)
  by (simp add: getAssignment_def)

text \<open>
  In the example the user is assigned by the deterministic strategy on a first call; the
  hash of the user id gives 36.76, which falls to the control. An event is tracked and
  the assignment is asked for again, and a call after that still returns the control.
\<close>

theorem assignment_sticky_witness:
  "getAssignment (Fin 1) exDraws ''exp1'' exFresh = (Inr (Some ''control''), exFirstCall) \<and>
   (\<exists>a. getUserAssignment exFirstCall ''exp1'' = Some a \<and> ua_variantId a = ''control'') \<and>
   activeTests (ab_run [TrackEvent (Fin 2) ''exp1'' ''conversion'' (Some (Fin 3)) None,
                        GetAssignment (Fin 3) exDraws ''exp1''] exFirstCall) ''exp1'' = Some exTest \<and>
   t_status exTest = Active \<and>
   getAssignment (Fin 4) (exDraws\<lparr>d_random := 0.9\<rparr>) ''exp1''
     (ab_run [TrackEvent (Fin 2) ''exp1'' ''conversion'' (Some (Fin 3)) None,
              GetAssignment (Fin 3) exDraws ''exp1''] exFirstCall) =
   (Inr (Some ''control''),
    ab_run [TrackEvent (Fin 2) ''exp1'' ''conversion'' (Some (Fin 3)) None,
            GetAssignment (Fin 3) exDraws ''exp1''] exFirstCall)"
proof -
  let ?ops = "[TrackEvent (Fin 2) ''exp1'' ''conversion'' (Some (Fin 3)) None,
               GetAssignment (Fin 3) exDraws ''exp1'']"
  have h: "hashPercentage ''u1'' = Fin (919 / 25)"
    by (simp add: hashPercentage_def simpleHash_def)
  have e: "isUserEligible (d_eligible exDraws) exTest"
    by (simp add: isUserEligible_def exTest_def exDraws_def jgt_def userData_attributes_def)
  have v: "assignUserToVariant ''u1'' (Fin 1) exDraws exTest = Inr ''control''"
    by (simp add: assignUserToVariant_def deterministicAssignment_def h exTest_def exControl_def)
  have c: "t_status exTest = Active"
    by (simp add: exTest_def)
  have first: "getAssignment (Fin 1) exDraws ''exp1'' exFresh = (Inr (Some ''control''), exFirstCall)"
    using e v c
    by (simp add: getAssignment_def exFirstCall_def getUserAssignment_def exFresh_def)
  from getAssignment_records [OF first] obtain a
    where a: "getUserAssignment exFirstCall ''exp1'' = Some a" "ua_variantId a = ''control''"
    by blast
  have b: "activeTests (ab_run ?ops exFirstCall) ''exp1'' = Some exTest"
    by (simp add: ab_run_def getAssignment_fields trackEvent_fields exFirstCall_def
        recordAssignment_def exFresh_def)
  from assignment_sticky [OF a(1) b c, of "Fin 4" "exDraws\<lparr>d_random := 0.9\<rparr>"] first a b c
  show ?thesis by auto
qed

text \<open>
  C10. For a test that is unknown to the manager or whose status is not active,
  \<^verbatim>\<open>getAssignment\<close> returns null and changes nothing, whether or not the user has an
  assignment for it.
\<close>

theorem getAssignment_inactive_null:
  assumes "activeTests m testId = None \<or> (\<exists>t. activeTests m testId = Some t \<and> t_status t \<noteq> Active)"
  shows "getAssignment now d testId m = (Inr None, m)"
  using assms by (auto simp: getAssignment_def)

theorem getAssignment_inactive_null_witness:
  "getUserAssignment exPaused ''exp1'' = Some exAssignment \<and>
   (\<exists>t. activeTests exPaused ''exp1'' = Some t \<and> t_status t \<noteq> Active) \<and>
   getAssignment (Fin 4) exDraws ''exp1'' exPaused = (Inr None, exPaused) \<and>
   activeTests exPaused ''nope'' = None \<and>
   getAssignment (Fin 4) exDraws ''nope'' exPaused = (Inr None, exPaused)"
proof -
  have a: "getUserAssignment exPaused ''exp1'' = Some exAssignment"
    by (simp add: getUserAssignment_def exPaused_def exAssigned_def exFresh_def exAssignment_def)
  have b: "\<exists>t. activeTests exPaused ''exp1'' = Some t \<and> t_status t \<noteq> Active"
    by (simp add: exPaused_def)
  have c: "activeTests exPaused ''nope'' = None"
    by (simp add: exPaused_def)
  from getAssignment_inactive_null [of exPaused "''exp1''" "Fin 4" exDraws]
    getAssignment_inactive_null [of exPaused "''nope''" "Fin 4" exDraws] a b c
  show ?thesis by blast
qed

text \<open>
  C8. \<^verbatim>\<open>trackEvent\<close> never raises. For a user with no active assignment for the test it
  leaves the manager, and so the event list, as it is. For a user with an active
  assignment it appends exactly one event, which carries the variant of that assignment.
  No operation of the manager changes or removes an event that is in the list: after any
  sequence of operations the old list is a prefix of the new one.
\<close>

theorem trackEvent_contract:
  "(getUserAssignment m testId = None \<longrightarrow> trackEvent now testId evType evValue meta m = m) \<and>
   (\<forall>a. getUserAssignment m testId = Some a \<longrightarrow>
        testEvents (trackEvent now testId evType evValue meta m) =
          testEvents m @
            [\<lparr>e_userId = userId m, e_testId = testId, e_variantId = ua_variantId a,
              eventType = evType, eventValue = evValue, metadata = meta, e_timestamp = now\<rparr>]) \<and>
   prefix (testEvents m') (testEvents (ab_run ops m'))"
  by (simp add: trackEvent_def testEvents_run)

theorem trackEvent_contract_witness:
  "getUserAssignment exFresh ''exp1'' = None \<and>
   trackEvent (Fin 2) ''exp1'' ''conversion'' (Some (Fin 3)) None exFresh = exFresh \<and>
   getUserAssignment exAssigned ''exp1'' = Some exAssignment \<and>
   testEvents (trackEvent (Fin 2) ''exp1'' ''conversion'' (Some (Fin 3)) None exAssigned) =
     [\<lparr>e_userId = ''u1'', e_testId = ''exp1'', e_variantId = ''treatment'',
       eventType = ''conversion'', eventValue = Some (Fin 3), metadata = None,
       e_timestamp = Fin 2\<rparr>]"
proof -
  have a: "getUserAssignment exFresh ''exp1'' = None"
    by (simp add: getUserAssignment_def exFresh_def)
  have b: "getUserAssignment exAssigned ''exp1'' = Some exAssignment"
    by (simp add: getUserAssignment_def exAssigned_def exFresh_def exAssignment_def)
  have c: "testEvents exAssigned = [] \<and> userId exAssigned = ''u1'' \<and>
           ua_variantId exAssignment = ''treatment''"
    by (simp add: exAssigned_def exFresh_def exAssignment_def)
  from trackEvent_contract [of exFresh "''exp1''" "Fin 2" "''conversion''" "Some (Fin 3)" None]
    trackEvent_contract [of exAssigned "''exp1''" "Fin 2" "''conversion''" "Some (Fin 3)" None]
    a b c
  show ?thesis by simp
qed

section \<open>Results of a test\<close>

lemma find_Some_in: "find P xs = Some x \<Longrightarrow> x \<in> set xs \<and> P x"
  by (induction xs) (auto split: if_splits)

lemma variantTables_metrics:
  "snd (variantTables ev pm vs (sz, ms)) k =
     (if k \<in> v_id ` set vs
      then Some (calculateVariantMetrics (filter (\<lambda>e. e_variantId e = k) ev) pm)
      else ms k)"
  by (induction vs arbitrary: sz ms) (auto simp: Let_def)

lemma performSignificanceTest_total:
  assumes "\<forall>v \<in> set vs. ms (v_id v) \<noteq> None"
  shows "\<exists>sig. performSignificanceTest ms vs = Inr sig"
proof (cases "find v_isControl vs")
  case None
  then show ?thesis by (simp add: performSignificanceTest_def)
next
  case (Some c)
  show ?thesis
  proof (cases "find (\<lambda>v. \<not> v_isControl v) vs")
    case None
    with Some show ?thesis by (simp add: performSignificanceTest_def)
  next
    case (Some tr)
    from \<open>find v_isControl vs = Some c\<close> assms obtain mc where mc: "ms (v_id c) = Some mc"
      using find_Some_in by fastforce
    from Some assms obtain mt where mt: "ms (v_id tr) = Some mt"
      using find_Some_in by fastforce
    from \<open>find v_isControl vs = Some c\<close> Some mc mt show ?thesis
      by (simp add: performSignificanceTest_def Let_def)
  qed
qed

lemma generateRecommendation_total:
  assumes "\<forall>v \<in> set (variants t). ms (v_id v) \<noteq> None"
  shows "\<exists>rec. generateRecommendation sig ms t = Inr rec"
proof (cases "find v_isControl (variants t)")
  case None
  then show ?thesis by (simp add: generateRecommendation_def)
next
  case (Some c)
  show ?thesis
  proof (cases "find (\<lambda>v. \<not> v_isControl v) (variants t)")
    case None
    with Some show ?thesis by (simp add: generateRecommendation_def)
  next
    case (Some tr)
    from \<open>find v_isControl (variants t) = Some c\<close> assms obtain mc where mc: "ms (v_id c) = Some mc"
      using find_Some_in by fastforce
    from Some assms obtain mt where mt: "ms (v_id tr) = Some mt"
      using find_Some_in by fastforce
    from \<open>find v_isControl (variants t) = Some c\<close> Some mc mt show ?thesis
      by (simp add: generateRecommendation_def Let_def)
  qed
qed

lemma metricsTable_apply:
  "metricsTable m testId t k =
     (if k \<in> v_id ` set (variants t)
      then Some (calculateVariantMetrics
                   (filter (\<lambda>e. e_variantId e = k) (filter (\<lambda>e. e_testId e = testId) (testEvents m)))
                   (primaryMetric t))
      else None)"
  by (simp add: metricsTable_def variantTables_metrics)

lemma calculateResults_known:
  assumes "activeTests m testId = Some t"
  shows "\<exists>r. calculateResults m testId = Inr r \<and> metrics r = metricsTable m testId t \<and>
             performSignificanceTest (metrics r) (variants t) = Inr (significance r) \<and>
             generateRecommendation (significance r) (metrics r) t = Inr (recommendation r)"
proof -
  let ?ms = "metricsTable m testId t"
  have dom: "\<forall>v \<in> set (variants t). ?ms (v_id v) \<noteq> None"
    by (simp add: metricsTable_apply)
  from performSignificanceTest_total [OF dom] obtain sig
    where sig: "performSignificanceTest ?ms (variants t) = Inr sig" by blast
  from generateRecommendation_total [OF dom] obtain rec
    where rec: "generateRecommendation sig ?ms t = Inr rec" by blast
  from assms sig rec show ?thesis
    by (auto simp: calculateResults_def metricsTable_def Let_def split: prod.splits)
qed

text \<open>
  C6. For a test the manager knows that has fewer than two variants, or no control
  variant, or no variant that is not a control, computing the results raises no error
  and yields the neutral significance: a p-value of 1, a z-score of 0, not significant.
\<close>

theorem neutral_without_comparison:
  assumes "activeTests m testId = Some t"
    and "length (variants t) < 2 \<or> (\<forall>v \<in> set (variants t). \<not> v_isControl v) \<or>
         (\<forall>v \<in> set (variants t). v_isControl v)"
  shows "\<exists>r. calculateResults m testId = Inr r \<and> pValue (significance r) = Fin 1 \<and>
             zScore (significance r) = Fin 0 \<and> \<not> significant (significance r)"
proof -
  have "find v_isControl (variants t) = None \<or> find (\<lambda>v. \<not> v_isControl v) (variants t) = None"
  proof (cases "variants t")
    case Nil
    then show ?thesis by simp
  next
    case (Cons v vs)
    show ?thesis
    proof (cases vs)
      case Nil
      with Cons show ?thesis by simp
    next
      case (Cons w ws)
      with \<open>variants t = v # vs\<close> assms(2) show ?thesis by (auto simp: find_None_iff)
    qed
  qed
  then have neutral:
    "performSignificanceTest (metricsTable m testId t) (variants t) = Inr neutralSignificance"
    by (auto simp: performSignificanceTest_def split: option.splits)
  from calculateResults_known [OF assms(1)] obtain r
    where r: "calculateResults m testId = Inr r"
      and ms: "metrics r = metricsTable m testId t"
      and sig: "performSignificanceTest (metrics r) (variants t) = Inr (significance r)"
    by blast
  from sig ms neutral have "significance r = neutralSignificance" by simp
  with r show ?thesis by (simp add: neutralSignificance_def)
qed

theorem neutral_without_comparison_witness:
  "activeTests exSolo ''exp1'' = Some (exTest\<lparr>variants := [exControl]\<rparr>) \<and>
   length (variants (exTest\<lparr>variants := [exControl]\<rparr>)) < 2 \<and>
   (\<exists>r. calculateResults exSolo ''exp1'' = Inr r \<and> pValue (significance r) = Fin 1 \<and>
        zScore (significance r) = Fin 0 \<and> \<not> significant (significance r))"
proof -
  have a: "activeTests exSolo ''exp1'' = Some (exTest\<lparr>variants := [exControl]\<rparr>)"
    by (simp add: exSolo_def exFresh_def)
  have b: "length (variants (exTest\<lparr>variants := [exControl]\<rparr>)) < 2"
    by simp
  from neutral_without_comparison [OF a] a b show ?thesis by blast
qed

section \<open>The recommendation\<close>





















section \<open>Determinism of allocation and flags\<close>

lemma exFlags_find: "findFlag exFlags ''newUI'' = Some exFlag"
  by (simp add: findFlag_def exFlags_def exFlag_def)

lemma exFlags_hash: "hashPercentage (rm_userId exFlags @ ''newUI'') = Fin (14 / 25)"
  by (simp add: hashPercentage_def simpleHash_def exFlags_def)

lemma exFlags_enabled:
  "isFeatureEnabled toNumber r ''newUI'' None exFlags = (r * 100 \<le> 50)"
  by (simp add: isFeatureEnabled_def exFlags_find exFlag_def jgt_def not_less)

lemma exFlags_variant:
  "getFeatureVariant toNumber r ''newUI'' None exFlags = (if r * 100 \<le> 50 then Some ''x'' else None)"
proof -
  have "walkFlagVariants (Fin (14 / 25)) (Fin 0) [exVariantX, exVariantY] = Some ''x''"
    by (simp add: exVariantX_def)
  then show ?thesis
    unfolding getFeatureVariant_def exFlags_find exFlags_enabled exFlags_hash
    by (simp add: exFlag_def)
qed

text \<open>
  The claim C5 as it is written has two calls of \<^verbatim>\<open>getFeatureVariant\<close> for the same flag,
  user and context return the same result. The flag check inside draws a random number
  against the rollout percentage: with a flag at 50 percent, a draw of 0.2 gives the
  variant and a draw of 0.8 gives null.
\<close>

theorem flag_variant_determinism_counterexample:
  "getFeatureVariant (\<lambda>v. NaN) (1 / 5) ''newUI'' None exFlags = Some ''x'' \<and>
   getFeatureVariant (\<lambda>v. NaN) (4 / 5) ''newUI'' None exFlags = None"
  by (simp add: exFlags_variant)

text \<open>The variant a flag gives a user once the flag check has passed: no draw is involved.\<close>

lemma getFeatureVariant_Some:
  assumes "getFeatureVariant toNumber r flagName ctx s = Some v"
  shows "\<exists>flag vs. findFlag s flagName = Some flag \<and> f_variants flag = Some vs \<and>
           Some v = (case walkFlagVariants (hashPercentage (rm_userId s @ flagName)) (Fin 0) vs of
                       Some i \<Rightarrow> Some i
                     | None \<Rightarrow> (case vs of [] \<Rightarrow> None
                                 | w # _ \<Rightarrow> if fv_id w \<noteq> [] then Some (fv_id w) else None))"
  using assms by (auto simp: getFeatureVariant_def split: option.splits if_splits)

lemma isFeatureEnabled_gate:
  assumes "findFlag s flagName = Some flag"
    and "jgt (jmul (Fin r1) (Fin 100)) (rolloutPercentage flag) =
         jgt (jmul (Fin r2) (Fin 100)) (rolloutPercentage flag)"
  shows "isFeatureEnabled toNumber r1 flagName ctx s = isFeatureEnabled toNumber r2 flagName ctx s"
  using assms by (simp add: isFeatureEnabled_def)

text \<open>
  C5, amended. The deterministic allocation depends on the user id, the seed and the
  variant list only: two calls return the same variant whatever the clock and the random
  draws of each call are. Two calls of \<^verbatim>\<open>getFeatureVariant\<close> for the same flag, user and
  context return the same variant whenever both return one, and return the same result
  whenever the draws of their flag checks fall on the same side of the flag's rollout
  percentage.
\<close>

theorem allocation_determinism:
  "(a_type (allocation test) = Deterministic \<longrightarrow>
      assignUserToVariant uid now d test = assignUserToVariant uid now' d' test \<and>
      assignUserToVariant uid now d test =
        deterministicAssignment uid (variants test) (seed (allocation test))) \<and>
   (\<forall>v1 v2. getFeatureVariant toNumber r1 flagName ctx s = Some v1 \<and>
            getFeatureVariant toNumber r2 flagName ctx s = Some v2 \<longrightarrow> v1 = v2) \<and>
   ((\<forall>flag. findFlag s flagName = Some flag \<longrightarrow>
        jgt (jmul (Fin r1) (Fin 100)) (rolloutPercentage flag) =
        jgt (jmul (Fin r2) (Fin 100)) (rolloutPercentage flag)) \<longrightarrow>
    getFeatureVariant toNumber r1 flagName ctx s = getFeatureVariant toNumber r2 flagName ctx s)"
proof (intro conjI impI allI)
  assume "a_type (allocation test) = Deterministic"
  then show "assignUserToVariant uid now d test = assignUserToVariant uid now' d' test"
    and "assignUserToVariant uid now d test =
         deterministicAssignment uid (variants test) (seed (allocation test))"
    by (simp_all add: assignUserToVariant_def)
next
  fix v1 v2
  assume "getFeatureVariant toNumber r1 flagName ctx s = Some v1 \<and>
          getFeatureVariant toNumber r2 flagName ctx s = Some v2"
  then have g1: "getFeatureVariant toNumber r1 flagName ctx s = Some v1"
    and g2: "getFeatureVariant toNumber r2 flagName ctx s = Some v2" by simp_all
  from getFeatureVariant_Some [OF g1] obtain flag vs
    where f1: "findFlag s flagName = Some flag" "f_variants flag = Some vs"
      and e1: "Some v1 = (case walkFlagVariants (hashPercentage (rm_userId s @ flagName)) (Fin 0) vs of
                       Some i \<Rightarrow> Some i
                     | None \<Rightarrow> (case vs of [] \<Rightarrow> None
                                 | w # _ \<Rightarrow> if fv_id w \<noteq> [] then Some (fv_id w) else None))"
    by blast
  from getFeatureVariant_Some [OF g2] obtain flag' vs'
    where f2: "findFlag s flagName = Some flag'" "f_variants flag' = Some vs'"
      and e2: "Some v2 = (case walkFlagVariants (hashPercentage (rm_userId s @ flagName)) (Fin 0) vs' of
                       Some i \<Rightarrow> Some i
                     | None \<Rightarrow> (case vs' of [] \<Rightarrow> None
                                 | w # _ \<Rightarrow> if fv_id w \<noteq> [] then Some (fv_id w) else None))"
    by blast
  from f1 f2 have same: "vs' = vs" by simp
  have "Some v1 = Some v2"
    by (rule trans [OF e1 sym [OF e2 [unfolded same]]])
  then show "v1 = v2" by simp
next
  assume gate: "\<forall>flag. findFlag s flagName = Some flag \<longrightarrow>
        jgt (jmul (Fin r1) (Fin 100)) (rolloutPercentage flag) =
        jgt (jmul (Fin r2) (Fin 100)) (rolloutPercentage flag)"
  show "getFeatureVariant toNumber r1 flagName ctx s = getFeatureVariant toNumber r2 flagName ctx s"
  proof (cases "findFlag s flagName")
    case None
    then show ?thesis by (simp add: getFeatureVariant_def)
  next
    case (Some flag)
    with gate isFeatureEnabled_gate [OF Some, of r1 r2 toNumber ctx]
    have eq: "isFeatureEnabled toNumber r1 flagName ctx s = isFeatureEnabled toNumber r2 flagName ctx s"
      by simp
    show ?thesis by (simp only: getFeatureVariant_def eq)
  qed
qed

theorem allocation_determinism_witness:
  "a_type (allocation exTest) = Deterministic \<and>
   assignUserToVariant ''u1'' (Fin 1) exDraws exTest =
     assignUserToVariant ''u1'' (Fin 2) (exDraws\<lparr>d_random := 0.9\<rparr>) exTest \<and>
   getFeatureVariant (\<lambda>v. NaN) (1 / 5) ''newUI'' None exFlags = Some ''x'' \<and>
   getFeatureVariant (\<lambda>v. NaN) (3 / 10) ''newUI'' None exFlags = Some ''x'' \<and>
   findFlag exFlags ''newUI'' = Some exFlag \<and>
   jgt (jmul (Fin (1 / 5)) (Fin 100)) (rolloutPercentage exFlag) =
     jgt (jmul (Fin (3 / 10)) (Fin 100)) (rolloutPercentage exFlag) \<and>
   getFeatureVariant (\<lambda>v. NaN) (1 / 5) ''newUI'' None exFlags =
     getFeatureVariant (\<lambda>v. NaN) (3 / 10) ''newUI'' None exFlags"
proof -
  have a: "a_type (allocation exTest) = Deterministic" by (simp add: exTest_def)
  have b: "getFeatureVariant (\<lambda>v. NaN) (1 / 5) ''newUI'' None exFlags = Some ''x''"
    "getFeatureVariant (\<lambda>v. NaN) (3 / 10) ''newUI'' None exFlags = Some ''x''"
    by (simp_all add: exFlags_variant)
  have c: "jgt (jmul (Fin (1 / 5)) (Fin 100)) (rolloutPercentage exFlag) =
           jgt (jmul (Fin (3 / 10)) (Fin 100)) (rolloutPercentage exFlag)"
    by (simp add: exFlag_def jgt_def)
  have d: "\<forall>flag. findFlag exFlags ''newUI'' = Some flag \<longrightarrow>
        jgt (jmul (Fin (1 / 5)) (Fin 100)) (rolloutPercentage flag) =
        jgt (jmul (Fin (3 / 10)) (Fin 100)) (rolloutPercentage flag)"
    using c by (simp add: exFlags_find)
  note inst = allocation_determinism [of exTest "''u1''" "Fin 1" exDraws "Fin 2"
      "exDraws\<lparr>d_random := 0.9\<rparr>" "\<lambda>v. NaN" "1 / 5" "''newUI''" None exFlags "3 / 10"]
  from inst a have e: "assignUserToVariant ''u1'' (Fin 1) exDraws exTest =
     assignUserToVariant ''u1'' (Fin 2) (exDraws\<lparr>d_random := 0.9\<rparr>) exTest" by blast
  from inst d have f: "getFeatureVariant (\<lambda>v. NaN) (1 / 5) ''newUI'' None exFlags =
     getFeatureVariant (\<lambda>v. NaN) (3 / 10) ''newUI'' None exFlags" by blast
  from a e b exFlags_find c f show ?thesis by blast
qed

section \<open>Validation at creation\<close>

lemma validateTestConfig_iff:
  "validateTestConfig test =
     (if jgt (jabs (dsub (totalWeight test) (Fin 100))) (fl (1 / 100)) then Inl WeightsError else Inr ())"
  by (simp add: validateTestConfig_def totalWeight_def)

lemma totalWeight_update [simp]:
  "totalWeight (test\<lparr>t_id := i, t_status := st, createdDate := n\<rparr>) = totalWeight test"
  by (simp add: totalWeight_def)

lemma createTest_cases:
  "createTest newId now cfg m =
     (if jgt (jabs (dsub (totalWeight cfg) (Fin 100))) (fl (1 / 100)) then (Inl WeightsError, m)
      else (Inr newId,
            m\<lparr>activeTests := (activeTests m)
                 (newId \<mapsto> cfg\<lparr>t_id := newId, t_status := Draft, createdDate := now\<rparr>)\<rparr>))"
  by (simp add: createTest_def validateTestConfig_iff Let_def)

lemma persist_initial: "persistRollout (plan\<lparr>p_metrics := initialMetrics\<rparr>) = Inr ()"
  by (simp add: persistRollout_def initialMetrics_def)

lemma createRolloutPlan_cases:
  "createRolloutPlan newId plan s =
     (Inr newId,
      setPlan newId (plan\<lparr>p_id := newId, p_status := Planned, currentPhase := 0,
                          currentPercentage := Fin 0, p_metrics := initialMetrics\<rparr>) s)"
  by (simp add: createRolloutPlan_def Let_def persistRollout_def initialMetrics_def)

lemma map_of_setPlan [simp]:
  "map_of (activeRollouts (setPlan k p s)) = (map_of (activeRollouts s))(k \<mapsto> p)"
  by (simp add: setPlan_def update_conv')

lemma assignUserToVariant_error:
  "assignUserToVariant uid now d test = Inl e \<Longrightarrow> e = TypeError \<and> variants test = []"
  by (auto simp: assignUserToVariant_def randomAssignment_def deterministicAssignment_def
      gradualAssignment_def firstVariantId_def Let_def
      split: allocation_type.splits option.splits list.splits if_splits
      dest: find_Some_in)

lemma getAssignment_error:
  "fst (getAssignment now d testId m) = Inl e \<Longrightarrow>
   e = TypeError \<and> (\<exists>t. activeTests m testId = Some t \<and> variants t = [])"
  by (auto simp: getAssignment_def split: option.splits if_splits sum.splits
      dest: assignUserToVariant_error)


lemma calculateResults_not_weights: "calculateResults m testId \<noteq> Inl WeightsError"
proof (cases "activeTests m testId")
  case None
  then show ?thesis by (simp add: calculateResults_def)
next
  case (Some t)
  from calculateResults_known [OF Some] show ?thesis by auto
qed

lemma createFeatureFlag_stored:
  "map_of (featureFlags (snd (createFeatureFlag fid flag s))) fid = Some (flag\<lparr>f_id := fid\<rparr>)"
  by (simp add: createFeatureFlag_def Let_def update_conv')

text \<open>
  The claim C9 as it is written has creation raise for an experiment without a control,
  for a flag whose variant weights do not sum to 100 and for a plan without phases. All
  three are accepted and stored.
\<close>

theorem creation_validation_counterexample:
  "fst (createTest ''t9'' (Fin 0) exNoControl exFresh) = Inr ''t9'' \<and>
   (\<exists>t. activeTests (snd (createTest ''t9'' (Fin 0) exNoControl exFresh)) ''t9'' = Some t \<and>
        find v_isControl (variants t) = None) \<and>
   map_of (featureFlags (snd (createFeatureFlag ''f9'' exBadFlag exFlags))) ''f9'' =
     Some (exBadFlag\<lparr>f_id := ''f9''\<rparr>) \<and>
   f_variants exBadFlag = Some [exVariantX\<lparr>fv_weight := Fin 30\<rparr>] \<and>
   fst (createRolloutPlan ''p9'' (exPlan\<lparr>phases := []\<rparr>) exFlags) = Inr ''p9'' \<and>
   (\<exists>p. map_of (activeRollouts (snd (createRolloutPlan ''p9'' (exPlan\<lparr>phases := []\<rparr>) exFlags))) ''p9'' =
          Some p \<and> phases p = [])"
proof -
  have w: "totalWeight exNoControl = Fin 100"
    by (simp add: totalWeight_def exNoControl_def dadd_def)
  have c: "find v_isControl (variants exNoControl) = None"
    by (simp add: exNoControl_def exTreatment_def)
  show ?thesis
    by (simp add: createTest_cases w c dsub_def dadd_def fl_hundredth jgt_def
        createFeatureFlag_stored createRolloutPlan_cases exBadFlag_def)
qed

text \<open>
  C9, amended. Creating an experiment whose variant weights, summed in list order in
  double arithmetic, are further from 100 than the double 0.01 raises the configuration
  error and stores nothing. This is the only check at creation: any other experiment is stored as a draft, whether or not it has a
  control; a feature flag is stored whatever its variant weights are; a rollout plan is
  stored whatever its phase list is. No evaluation raises the configuration error: an
  assignment raises only a type error, and only for a test with no variant at all;
  computing the results of a known test raises nothing; the flag check and the flag
  variant are plain values.
\<close>

theorem creation_validation:
  "(jgt (jabs (dsub (totalWeight cfg) (Fin 100))) (fl (1 / 100)) \<longrightarrow>
      createTest newId now cfg m = (Inl WeightsError, m)) \<and>
   (\<not> jgt (jabs (dsub (totalWeight cfg) (Fin 100))) (fl (1 / 100)) \<longrightarrow>
      createTest newId now cfg m =
        (Inr newId,
         m\<lparr>activeTests := (activeTests m)
              (newId \<mapsto> cfg\<lparr>t_id := newId, t_status := Draft, createdDate := now\<rparr>)\<rparr>)) \<and>
   map_of (featureFlags (snd (createFeatureFlag fid flag s))) fid = Some (flag\<lparr>f_id := fid\<rparr>) \<and>
   fst (createRolloutPlan pid plan s) = Inr pid \<and>
   (\<exists>p. map_of (activeRollouts (snd (createRolloutPlan pid plan s))) pid = Some p \<and>
        phases p = phases plan) \<and>
   (\<forall>e. fst (getAssignment now' d testId m') = Inl e \<longrightarrow>
        e = TypeError \<and> (\<exists>t. activeTests m' testId = Some t \<and> variants t = [])) \<and>
   (\<forall>t. activeTests m' testId = Some t \<longrightarrow> (\<exists>r. calculateResults m' testId = Inr r)) \<and>
   calculateResults m' testId \<noteq> Inl WeightsError"
proof (intro conjI allI impI)
  show "calculateResults m' testId \<noteq> Inl WeightsError"
    by (rule calculateResults_not_weights)
next
  fix t
  assume "activeTests m' testId = Some t"
  from calculateResults_known [OF this] show "\<exists>r. calculateResults m' testId = Inr r" by blast
next
  fix e
  assume e: "fst (getAssignment now' d testId m') = Inl e"
  from getAssignment_error [OF e] show "e = TypeError"
    and "\<exists>t. activeTests m' testId = Some t \<and> variants t = []" by simp_all
qed (simp_all add: createTest_cases createFeatureFlag_stored createRolloutPlan_cases)

lemma exBoundary_distance:
  "dsub (totalWeight exBoundary) (Fin 100) = Fin (703687441777 / 70368744177664)"
  using fl_sum_example fl_diff_example
  by (simp add: totalWeight_def exBoundary_def exControl_def exTreatment_def dsub_def dadd_def
      fl_hundredth)

lemma exTest_distance: "dsub (totalWeight exTest) (Fin 100) = Fin 0"
  by (simp add: totalWeight_def exTest_def exControl_def exTreatment_def dsub_def dadd_def)

theorem creation_validation_witness:
  "jgt (jabs (dsub (totalWeight exBoundary) (Fin 100))) (fl (1 / 100)) \<and>
   createTest ''t9'' (Fin 0) exBoundary exFresh = (Inl WeightsError, exFresh) \<and>
   \<not> jgt (jabs (dsub (totalWeight exTest) (Fin 100))) (fl (1 / 100)) \<and>
   fst (createTest ''t9'' (Fin 0) exTest exFresh) = Inr ''t9'' \<and>
   fst (getAssignment (Fin 1) exDraws ''exp1'' exNoVariants) = Inl TypeError \<and>
   (\<exists>t. activeTests exNoVariants ''exp1'' = Some t \<and> variants t = []) \<and>
   activeTests exFresh ''exp1'' = Some exTest \<and>
   (\<exists>r. calculateResults exFresh ''exp1'' = Inr r)"
proof -
  have a: "jgt (jabs (dsub (totalWeight exBoundary) (Fin 100))) (fl (1 / 100))"
    by (simp add: exBoundary_distance fl_hundredth jgt_def)
  have b: "\<not> jgt (jabs (dsub (totalWeight exTest) (Fin 100))) (fl (1 / 100))"
    by (simp add: exTest_distance fl_hundredth jgt_def)
  have c: "fst (getAssignment (Fin 1) exDraws ''exp1'' exNoVariants) = Inl TypeError"
    by (simp add: getAssignment_def exNoVariants_def exFresh_def getUserAssignment_def
        isUserEligible_def exTest_def exDraws_def jgt_def userData_attributes_def
        assignUserToVariant_def deterministicAssignment_def firstVariantId_def Let_def)
  have d: "activeTests exFresh ''exp1'' = Some exTest"
    by (simp add: exFresh_def)
  note inst1 = creation_validation [of exBoundary "''t9''" "Fin 0" exFresh _ _ _ _ _ "Fin 1" exDraws
      "''exp1''" exNoVariants]
  note inst2 = creation_validation [of exTest "''t9''" "Fin 0" exFresh _ _ _ _ _ "Fin 1" exDraws
      "''exp1''" exFresh]
  from inst1 a have e: "createTest ''t9'' (Fin 0) exBoundary exFresh = (Inl WeightsError, exFresh)"
    by blast
  from inst2 b have f: "fst (createTest ''t9'' (Fin 0) exTest exFresh) = Inr ''t9''"
    by simp
  from inst1 c have g: "\<exists>t. activeTests exNoVariants ''exp1'' = Some t \<and> variants t = []"
    by blast
  from inst2 d have h: "\<exists>r. calculateResults exFresh ''exp1'' = Inr r"
    by blast
  from a e b f c g d h show ?thesis by blast
qed
section \<open>Rollback, resume and the periodic check\<close>

lemma setPlan_fields [simp]:
  "featureFlags (setPlan k p s) = featureFlags s"
  "abTestManager (setPlan k p s) = abTestManager s"
  by (simp_all add: setPlan_def)

lemma updateFlag_fields [simp]:
  "activeRollouts (updateFlag k f s) = activeRollouts s"
  "abTestManager (updateFlag k f s) = abTestManager s"
  by (simp_all add: updateFlag_def split: option.splits)

lemma map_of_updateFlag:
  "map_of (featureFlags (updateFlag k f s)) k' =
     (if k' = k then map_option f (map_of (featureFlags s) k) else map_of (featureFlags s) k')"
  by (auto simp: updateFlag_def update_conv' split: option.splits)

lemma stopTest_outcome:
  "fst (stopTest now t r m) = (case activeTests m t of None \<Rightarrow> Inl (TestNotFound t) | Some _ \<Rightarrow> Inr ())"
proof (cases "activeTests m t")
  case None
  then show ?thesis by (simp add: stopTest_def)
next
  case (Some test)
  let ?m1 = "m\<lparr>activeTests := (activeTests m)(t \<mapsto> test\<lparr>t_status := Completed, endDate := Some now\<rparr>)\<rparr>"
  have "activeTests ?m1 t = Some (test\<lparr>t_status := Completed, endDate := Some now\<rparr>)" by simp
  from calculateResults_known [OF this] obtain res where "calculateResults ?m1 t = Inr res"
    by blast
  with Some show ?thesis by (simp add: stopTest_def Let_def)
qed

lemma rollbackRollout_known:
  assumes "map_of (activeRollouts s) k = Some plan"
  shows "activeRollouts (snd (rollbackRollout now k reason s)) =
           AList.update k (plan\<lparr>p_status := RolledBack,
               p_metrics := (p_metrics plan)
                 \<lparr>m_values := increment ''rollbacksTriggered'' (m_values (p_metrics plan))\<rparr>\<rparr>)
             (activeRollouts s)"
    and "featureFlags (snd (rollbackRollout now k reason s)) =
           featureFlags (updateFlag (feature plan)
             (\<lambda>featureFlag. featureFlag\<lparr>enabled := False, rolloutPercentage := Fin 0\<rparr>) s)"
  using assms
  by (auto simp: rollbackRollout_def Let_def setPlan_def updateFlag_def
      split: prod.splits sum.splits option.splits)

lemma rollbackRollout_outcome:
  assumes "map_of (activeRollouts s) k = Some plan"
  shows "fst (rollbackRollout now k reason s) =
           (case activeTests (abTestManager s) (''rollout-'' @ k) of
              None \<Rightarrow> Inl (TestNotFound (''rollout-'' @ k))
            | Some _ \<Rightarrow> persistRollout (plan\<lparr>p_status := RolledBack\<rparr>))"
proof -
  have "\<And>e ab. stopTest now (''rollout-'' @ k) (''rollback: '' @ reason) (abTestManager s) = (e, ab) \<Longrightarrow>
        e = (case activeTests (abTestManager s) (''rollout-'' @ k) of
               None \<Rightarrow> Inl (TestNotFound (''rollout-'' @ k)) | Some _ \<Rightarrow> Inr ())"
    using stopTest_outcome [of now "''rollout-'' @ k" "''rollback: '' @ reason" "abTestManager s"]
    by simp
  with assms show ?thesis
    by (auto simp: rollbackRollout_def Let_def persistRollout_def
        split: prod.splits sum.splits option.splits)
qed

lemma resumeRollout_known:
  assumes "map_of (activeRollouts s) k = Some plan"
  shows "snd (resumeRollout k s) = setPlan k (plan\<lparr>p_status := RActive\<rparr>) s"
    and "fst (resumeRollout k s) = persistRollout (plan\<lparr>p_status := RActive\<rparr>)"
  using assms by (simp_all add: resumeRollout_def Let_def)

text \<open>
  C1, amended. For every rollout plan the manager knows, after \<^verbatim>\<open>rollbackRollout\<close>,
  however it ends, the status of the plan is rolled back, and the flag of the plan's
  feature, when there is one, is disabled with a rollout percentage of 0. A following
  \<^verbatim>\<open>resumeRollout\<close> sets the status of the plan to active and leaves the flags as they
  are: the flag stays disabled at 0.
\<close>

theorem rollback_then_resume:
  assumes "map_of (activeRollouts s) rolloutId = Some plan"
  shows "\<exists>p1. map_of (activeRollouts (snd (rollbackRollout now rolloutId reason s))) rolloutId = Some p1 \<and>
           p_status p1 = RolledBack \<and>
           (\<forall>flag. map_of (featureFlags s) (feature plan) = Some flag \<longrightarrow>
              map_of (featureFlags (snd (rollbackRollout now rolloutId reason s))) (feature plan) =
                Some (flag\<lparr>enabled := False, rolloutPercentage := Fin 0\<rparr>)) \<and>
           map_of (activeRollouts
                     (snd (resumeRollout rolloutId (snd (rollbackRollout now rolloutId reason s)))))
                  rolloutId = Some (p1\<lparr>p_status := RActive\<rparr>) \<and>
           featureFlags (snd (resumeRollout rolloutId (snd (rollbackRollout now rolloutId reason s)))) =
             featureFlags (snd (rollbackRollout now rolloutId reason s))"
proof -
  let ?p1 = "plan\<lparr>p_status := RolledBack,
               p_metrics := (p_metrics plan)
                 \<lparr>m_values := increment ''rollbacksTriggered'' (m_values (p_metrics plan))\<rparr>\<rparr>"
  let ?s1 = "snd (rollbackRollout now rolloutId reason s)"
  have look: "map_of (activeRollouts ?s1) rolloutId = Some ?p1"
    by (simp add: rollbackRollout_known(1) [OF assms] update_conv')
  have flags: "\<forall>flag. map_of (featureFlags s) (feature plan) = Some flag \<longrightarrow>
      map_of (featureFlags ?s1) (feature plan) =
        Some (flag\<lparr>enabled := False, rolloutPercentage := Fin 0\<rparr>)"
    by (simp add: rollbackRollout_known(2) [OF assms] map_of_updateFlag)
  have "map_of (activeRollouts (snd (resumeRollout rolloutId ?s1))) rolloutId =
          Some (?p1\<lparr>p_status := RActive\<rparr>)"
    and "featureFlags (snd (resumeRollout rolloutId ?s1)) = featureFlags ?s1"
    by (simp_all add: resumeRollout_known(1) [OF look])
  with look flags show ?thesis by simp
qed

lemma exRM_plan:
  "map_of (activeRollouts exRM) ''r1'' =
     Some (exPlan\<lparr>p_id := ''r1'', p_status := RActive, currentPercentage := Fin 10\<rparr>)"
  by (simp add: exRM_def)

text \<open>
  The claim C1 as it is written has \<^verbatim>\<open>resumeRollout\<close> after a rollback leave the status
  rolled back. In the example the rollback completes without an error, and the resume
  that follows makes the plan active again.
\<close>

theorem resume_after_rollback_counterexample:
  "fst (rollbackRollout (Fin 9) ''r1'' ''manual'' exRM) = Inr () \<and>
   (\<exists>p. map_of (activeRollouts (snd (rollbackRollout (Fin 9) ''r1'' ''manual'' exRM))) ''r1'' = Some p \<and>
        p_status p = RolledBack) \<and>
   (\<exists>p. map_of (activeRollouts
                  (snd (resumeRollout ''r1'' (snd (rollbackRollout (Fin 9) ''r1'' ''manual'' exRM)))))
           ''r1'' = Some p \<and> p_status p = RActive)"
proof -
  let ?s1 = "snd (rollbackRollout (Fin 9) ''r1'' ''manual'' exRM)"
  have out: "fst (rollbackRollout (Fin 9) ''r1'' ''manual'' exRM) = Inr ()"
    unfolding rollbackRollout_outcome [OF exRM_plan]
    by (simp add: persistRollout_def exPlan_def initialMetrics_def exRM_def)
  have look: "\<exists>p. map_of (activeRollouts ?s1) ''r1'' = Some p \<and> p_status p = RolledBack"
    by (simp add: rollbackRollout_known(1) [OF exRM_plan] update_conv')
  then obtain p where p: "map_of (activeRollouts ?s1) ''r1'' = Some p" by blast
  have "map_of (activeRollouts (snd (resumeRollout ''r1'' ?s1))) ''r1'' = Some (p\<lparr>p_status := RActive\<rparr>)"
    by (simp add: resumeRollout_known(1) [OF p])
  with out look show ?thesis by simp
qed

theorem rollback_then_resume_witness:
  "map_of (activeRollouts exRM) ''r1'' =
     Some (exPlan\<lparr>p_id := ''r1'', p_status := RActive, currentPercentage := Fin 10\<rparr>) \<and>
   map_of (featureFlags exRM) ''f1'' = Some (exFlag\<lparr>rolloutPercentage := Fin 10\<rparr>) \<and>
   map_of (featureFlags (snd (rollbackRollout (Fin 9) ''r1'' ''manual'' exRM))) ''f1'' =
     Some (exFlag\<lparr>rolloutPercentage := Fin 0, enabled := False\<rparr>) \<and>
   (\<exists>p1. map_of (activeRollouts (snd (rollbackRollout (Fin 9) ''r1'' ''manual'' exRM))) ''r1'' = Some p1 \<and>
      p_status p1 = RolledBack \<and>
      map_of (activeRollouts
                (snd (resumeRollout ''r1'' (snd (rollbackRollout (Fin 9) ''r1'' ''manual'' exRM)))))
             ''r1'' = Some (p1\<lparr>p_status := RActive\<rparr>))"
proof -
  have f: "map_of (featureFlags exRM) ''f1'' = Some (exFlag\<lparr>rolloutPercentage := Fin 10\<rparr>)"
    by (simp add: exRM_def)
  have g: "feature (exPlan\<lparr>p_id := ''r1'', p_status := RActive, currentPercentage := Fin 10\<rparr>) = ''f1''"
    by (simp add: exPlan_def)
  from rollback_then_resume [OF exRM_plan, of "Fin 9" "''manual''"] exRM_plan f g
  show ?thesis by auto
qed


section \<open>Starting a rollout\<close>

text \<open>The weights of the experiment of a plan whose first phase is at 10 percent pass the check.\<close>

lemma rollout_weights:
  "ph_percentage phase0 = Fin 10 \<Longrightarrow>
   \<not> jgt (jabs (dsub (totalWeight (rolloutTestConfig plan phase0)) (Fin 100))) (fl (1 / 100))"
  by (simp add: totalWeight_def rolloutTestConfig_def dsub_def dadd_def fl_hundredth jgt_def)

text \<open>
  The experiment of a rollout is found only if one named after the plan is already there
  (or if the generated identifier happens to be that name).
\<close>

lemma createRolloutABTest_cases:
  assumes "phases plan = phase0 # rest" and "ph_percentage phase0 = Fin 10"
  shows "createRolloutABTest now tid plan ab =
           startTest now (''rollout-'' @ p_id plan)
             (ab\<lparr>activeTests := (activeTests ab)
                   (tid \<mapsto> (rolloutTestConfig plan phase0)
                             \<lparr>t_id := tid, t_status := Draft, createdDate := now\<rparr>)\<rparr>)"
proof -
  have created: "createTest tid now (rolloutTestConfig plan phase0) ab =
      (Inr tid,
       ab\<lparr>activeTests := (activeTests ab)
            (tid \<mapsto> (rolloutTestConfig plan phase0)
                      \<lparr>t_id := tid, t_status := Draft, createdDate := now\<rparr>)\<rparr>)"
    by (simp only: createTest_cases rollout_weights [OF assms(2)] if_False)
  show ?thesis
    by (simp add: createRolloutABTest_def assms(1) created)
qed

lemma createRolloutABTest_outcome:
  assumes "phases plan = phase0 # rest" and "ph_percentage phase0 = Fin 10"
  shows "fst (createRolloutABTest now tid plan ab) =
           (if tid = ''rollout-'' @ p_id plan \<or> activeTests ab (''rollout-'' @ p_id plan) \<noteq> None
            then Inr () else Inl (TestNotFound (''rollout-'' @ p_id plan)))"
  unfolding createRolloutABTest_cases [OF assms]
  by (auto simp: startTest_def split: option.splits)

lemma startRollout_failed:
  assumes "map_of (activeRollouts s) k = Some plan"
    and "fst (createRolloutABTest now tid (plan\<lparr>p_status := RActive, p_startDate := now\<rparr>)
               (abTestManager s)) = Inl e"
  shows "fst (startRollout now tid k s) = Inl e"
    and "activeRollouts (snd (startRollout now tid k s)) =
         AList.update k (plan\<lparr>p_status := RActive, p_startDate := now\<rparr>) (activeRollouts s)"
  using assms
  by (auto simp: startRollout_def Let_def setPlan_def split: prod.splits sum.splits)

lemma exStarted_plan:
  "map_of (activeRollouts exStarted) ''r1'' =
     Some (exPlan\<lparr>p_id := ''r1'', p_status := RActive, p_startDate := Fin 1\<rparr>)"
proof -
  let ?s0 = "snd (createRolloutPlan ''r1'' exPlan exRM0)"
  let ?p0 = "exPlan\<lparr>p_id := ''r1'', p_status := Planned, currentPhase := 0,
                     currentPercentage := Fin 0, p_metrics := initialMetrics\<rparr>"
  have look: "map_of (activeRollouts ?s0) ''r1'' = Some ?p0"
    by (simp add: createRolloutPlan_cases)
  have ab: "abTestManager ?s0 = exEmptyAB"
    by (simp add: createRolloutPlan_cases exRM0_def)
  have "fst (createRolloutABTest (Fin 1) ''t1'' (?p0\<lparr>p_status := RActive, p_startDate := Fin 1\<rparr>)
               (abTestManager ?s0)) = Inl (TestNotFound ''rollout-r1'')"
    unfolding ab
    by (subst createRolloutABTest_outcome [of _ "exPhase 10" "[exPhase 25, exPhase 100]"])
       (simp_all add: exPlan_def exPhase_def exEmptyAB_def)
  from startRollout_failed(2) [OF look this]
  have "map_of (activeRollouts exStarted) ''r1'' = Some (?p0\<lparr>p_status := RActive, p_startDate := Fin 1\<rparr>)"
    by (simp add: exStarted_def update_conv')
  then show ?thesis by (simp add: exPlan_def)
qed

lemma startRollout_failed_tests:
  assumes "map_of (activeRollouts s) k = Some plan"
    and "fst (createRolloutABTest now tid (plan\<lparr>p_status := RActive, p_startDate := now\<rparr>)
               (abTestManager s)) = Inl e"
  shows "abTestManager (snd (startRollout now tid k s)) =
         snd (createRolloutABTest now tid (plan\<lparr>p_status := RActive, p_startDate := now\<rparr>)
                (abTestManager s))"
  using assms
  by (auto simp: startRollout_def Let_def split: prod.splits sum.splits)

text \<open>
  C2 on the code. A plan with phases at 10, 25 and 100 percent is created and started.
  \<^verbatim>\<open>startRollout\<close> makes the plan active and creates the experiment of the plan, which
  \<^verbatim>\<open>createTest\<close> stores as a draft under the identifier it generates; it then asks
  \<^verbatim>\<open>startTest\<close> for the experiment named \<^verbatim>\<open>rollout-\<close> and the id of the plan, which is
  not there, and raises before the transition to the first phase. The plan is left active
  in phase 0 with a current percentage of 0, where the phase has 10.
\<close>

theorem start_leaves_percentage_zero:
  "fst (createRolloutPlan ''r1'' exPlan exRM0) = Inr ''r1'' \<and>
   fst (startRollout (Fin 1) ''t1'' ''r1'' (snd (createRolloutPlan ''r1'' exPlan exRM0))) =
     Inl (TestNotFound ''rollout-r1'') \<and>
   (\<exists>t. activeTests (abTestManager exStarted) ''t1'' = Some t \<and> t_status t = Draft) \<and>
   activeTests (abTestManager exStarted) ''rollout-r1'' = None \<and>
   (\<exists>p. map_of (activeRollouts exStarted) ''r1'' = Some p \<and> p_status p = RActive \<and>
        currentPhase p = 0 \<and> currentPercentage p = Fin 0 \<and>
        ph_percentage (phases p ! currentPhase p) = Fin 10 \<and>
        currentPercentage p \<noteq> ph_percentage (phases p ! currentPhase p))"
proof -
  let ?s0 = "snd (createRolloutPlan ''r1'' exPlan exRM0)"
  let ?p0 = "exPlan\<lparr>p_id := ''r1'', p_status := Planned, currentPhase := 0,
                     currentPercentage := Fin 0, p_metrics := initialMetrics\<rparr>"
  let ?p1 = "?p0\<lparr>p_status := RActive, p_startDate := Fin 1\<rparr>"
  have created: "fst (createRolloutPlan ''r1'' exPlan exRM0) = Inr ''r1''"
    by (simp add: createRolloutPlan_cases)
  have look: "map_of (activeRollouts ?s0) ''r1'' = Some ?p0"
    by (simp add: createRolloutPlan_cases)
  have ab: "abTestManager ?s0 = exEmptyAB"
    by (simp add: createRolloutPlan_cases exRM0_def)
  have ph: "phases ?p1 = exPhase 10 # [exPhase 25, exPhase 100]" "ph_percentage (exPhase 10) = Fin 10"
    by (simp_all add: exPlan_def exPhase_def)
  have raised: "fst (createRolloutABTest (Fin 1) ''t1'' ?p1 (abTestManager ?s0)) =
                  Inl (TestNotFound ''rollout-r1'')"
    unfolding ab createRolloutABTest_outcome [OF ph]
    by (simp add: exPlan_def exEmptyAB_def)
  have tests: "activeTests (abTestManager exStarted) =
                 (activeTests exEmptyAB)
                   (''t1'' \<mapsto> (rolloutTestConfig ?p1 (exPhase 10))
                                \<lparr>t_id := ''t1'', t_status := Draft, createdDate := Fin 1\<rparr>)"
    unfolding exStarted_def startRollout_failed_tests [OF look raised] ab
      createRolloutABTest_cases [OF ph]
    by (simp add: startTest_def exPlan_def exEmptyAB_def)
  have plan: "\<exists>p. map_of (activeRollouts exStarted) ''r1'' = Some p \<and> p_status p = RActive \<and>
        currentPhase p = 0 \<and> currentPercentage p = Fin 0 \<and>
        ph_percentage (phases p ! currentPhase p) = Fin 10 \<and>
        currentPercentage p \<noteq> ph_percentage (phases p ! currentPhase p)"
    by (simp add: exStarted_plan exPlan_def exPhase_def)
  from created startRollout_failed(1) [OF look raised] plan show ?thesis
    by (simp add: tests exEmptyAB_def)
qed

lemma checkLoop_rolls_back:
  assumes "map_of (activeRollouts s) k = Some plan"
    and "p_status plan = RActive"
    and "find (\<lambda>c. evaluateRollbackCondition c (getCurrentMetrics (drawsFor k)))
           (rollbackConditions plan) = Some c"
  shows "\<exists>p'. map_of (activeRollouts (snd (checkLoop now drawsFor [k] s))) k = Some p' \<and>
              p_status p' = RolledBack"
proof -
  let ?plan1 = "plan\<lparr>p_metrics := (p_metrics plan)
                  \<lparr>m_values := m_values (p_metrics plan) ++ getCurrentMetrics (drawsFor k)\<rparr>\<rparr>"
  let ?s1 = "setPlan k ?plan1 s"
  let ?reason = "''Rollback condition triggered: '' @ rc_metric c"
  have look: "map_of (activeRollouts ?s1) k = Some ?plan1" by simp
  have "\<exists>p'. map_of (activeRollouts (snd (rollbackRollout now k ?reason ?s1))) k = Some p' \<and>
             p_status p' = RolledBack"
    by (simp add: rollbackRollout_known(1) [OF look] update_conv')
  moreover have "snd (checkLoop now drawsFor [k] s) = snd (rollbackRollout now k ?reason ?s1)"
    using assms by (simp add: Let_def split: prod.splits sum.splits)
  ultimately show ?thesis by simp
qed

text \<open>
  C3 on the code. A plan is created with one rollback condition, of severity warning, on
  an error rate above 0.01, and started. The periodic check takes a reading with an error
  rate of 0.015: \<^verbatim>\<open>shouldTriggerRollback\<close>, which the phase evaluation asks, says no,
  and the periodic check rolls the plan back.
\<close>

theorem monitor_rolls_back_on_warning:
  "\<exists>p p'. map_of (activeRollouts exStarted) ''r1'' = Some p \<and> p_status p = RActive \<and>
      list_all (\<lambda>c. rc_severity c = Warning) (rollbackConditions p) \<and>
      \<not> shouldTriggerRollback p (getCurrentMetrics exReading) \<and>
      map_of (activeRollouts (snd (checkActiveRollouts (Fin 9) (\<lambda>k. exReading) exStarted))) ''r1'' =
        Some p' \<and>
      p_status p' = RolledBack"
proof -
  let ?p = "exPlan\<lparr>p_id := ''r1'', p_status := RActive, p_startDate := Fin 1\<rparr>"
  have keys: "map fst (activeRollouts exStarted) = [''r1'']"
  proof -
    let ?s0 = "snd (createRolloutPlan ''r1'' exPlan exRM0)"
    let ?p0 = "exPlan\<lparr>p_id := ''r1'', p_status := Planned, currentPhase := 0,
                       currentPercentage := Fin 0, p_metrics := initialMetrics\<rparr>"
    have look: "map_of (activeRollouts ?s0) ''r1'' = Some ?p0"
      by (simp add: createRolloutPlan_cases)
    have ab: "abTestManager ?s0 = exEmptyAB"
      by (simp add: createRolloutPlan_cases exRM0_def)
    have "fst (createRolloutABTest (Fin 1) ''t1'' (?p0\<lparr>p_status := RActive, p_startDate := Fin 1\<rparr>)
                 (abTestManager ?s0)) = Inl (TestNotFound ''rollout-r1'')"
      unfolding ab
      by (subst createRolloutABTest_outcome [of _ "exPhase 10" "[exPhase 25, exPhase 100]"])
         (simp_all add: exPlan_def exPhase_def exEmptyAB_def)
    from startRollout_failed(2) [OF look this] show ?thesis
      by (simp add: exStarted_def createRolloutPlan_cases setPlan_def exRM0_def)
  qed
  have breach: "find (\<lambda>c. evaluateRollbackCondition c (getCurrentMetrics ((\<lambda>k. exReading) ''r1'')))
                  (rollbackConditions ?p) = Some (hd (rollbackConditions ?p))"
    by (simp add: exPlan_def evaluateRollbackCondition_def getCurrentMetrics_def exReading_def
        compareMetric_def jgt_def)
  from checkLoop_rolls_back [OF exStarted_plan _ breach, of "Fin 9"] obtain p'
    where "map_of (activeRollouts (snd (checkLoop (Fin 9) (\<lambda>k. exReading) [''r1''] exStarted))) ''r1'' =
             Some p'" "p_status p' = RolledBack"
    by auto
  moreover have "list_all (\<lambda>c. rc_severity c = Warning) (rollbackConditions ?p)"
    by (simp add: exPlan_def)
  moreover have "\<not> shouldTriggerRollback ?p (getCurrentMetrics exReading)"
    by (simp add: shouldTriggerRollback_def exPlan_def)
  ultimately show ?thesis
    using exStarted_plan by (simp add: checkActiveRollouts_def keys)
qed

end
